theory Spec2Isabelle
  imports Main "HOL-Library.Sublist" "HOL-Library.AList"
begin

section \<open>Strings and POSIX paths\<close>

text \<open>
  The code is TypeScript on Node. Strings are \<^typ>\<open>string\<close>; the string methods it calls
  (\<^verbatim>\<open>includes\<close>, \<^verbatim>\<open>endsWith\<close>, \<^verbatim>\<open>replace\<close> with a string pattern) are written out.
  Paths are strings joined by \<^verbatim>\<open>path.join\<close>, which on POSIX joins the non-empty
  arguments with a slash and then normalises the result: empty and \<^verbatim>\<open>.\<close> segments are
  dropped and \<^verbatim>\<open>..\<close> takes the previous segment away.
\<close>

fun str_includes :: "string \<Rightarrow> string \<Rightarrow> bool" where
  "str_includes [] sub = (sub = [])"
| "str_includes (c # cs) sub = (prefix sub (c # cs) \<or> str_includes cs sub)"

definition endsWith :: "string \<Rightarrow> string \<Rightarrow> bool" where
  "endsWith s suf = suffix suf s"

text \<open>\<^verbatim>\<open>s.replace(pat, rep)\<close> with a string pattern replaces the first occurrence only.\<close>

fun replace_first :: "string \<Rightarrow> string \<Rightarrow> string \<Rightarrow> string" where
  "replace_first [] pat rep = (if pat = [] then rep else [])"
| "replace_first (c # cs) pat rep =
     (if prefix pat (c # cs) then rep @ drop (length pat) (c # cs)
      else c # replace_first cs pat rep)"

fun split_slash :: "string \<Rightarrow> string list" where
  "split_slash [] = [[]]"
| "split_slash (c # cs) =
     (if c = CHR ''/'' then [] # split_slash cs
      else (case split_slash cs of [] \<Rightarrow> [[c]] | s # ss \<Rightarrow> (c # s) # ss))"

fun join_slash :: "string list \<Rightarrow> string" where
  "join_slash [] = []"
| "join_slash [s] = s"
| "join_slash (s # t # ts) = s @ CHR ''/'' # join_slash (t # ts)"

text \<open>
  Node's \<^verbatim>\<open>normalizeString\<close>, segment by segment: \<open>res\<close> holds the segments kept so far.
\<close>

fun normalizeString :: "bool \<Rightarrow> string list \<Rightarrow> string list \<Rightarrow> string list" where
  "normalizeString allowAboveRoot res [] = res"
| "normalizeString allowAboveRoot res (s # ss) =
     (if s = [] \<or> s = ''.'' then normalizeString allowAboveRoot res ss
      else if s = ''..'' then
        (if res \<noteq> [] \<and> last res \<noteq> ''..'' then normalizeString allowAboveRoot (butlast res) ss
         else if allowAboveRoot then normalizeString allowAboveRoot (res @ [''..'']) ss
         else normalizeString allowAboveRoot res ss)
      else normalizeString allowAboveRoot (res @ [s]) ss)"

definition path_normalize :: "string \<Rightarrow> string" where
  "path_normalize p =
     (if p = [] then ''.''
      else
        let isAbsolute = (hd p = CHR ''/'');
            trailingSeparator = (last p = CHR ''/'');
            res = join_slash (normalizeString (\<not> isAbsolute) [] (split_slash p))
        in if res = [] then (if isAbsolute then ''/'' else if trailingSeparator then ''./'' else ''.'')
           else (if isAbsolute then ''/'' else []) @ res @ (if trailingSeparator then ''/'' else []))"

definition path_join :: "string list \<Rightarrow> string" where
  "path_join args =
     (let joined = join_slash (filter (\<lambda>a. a \<noteq> []) args)
      in if joined = [] then ''.'' else path_normalize joined)"

definition basename :: "string \<Rightarrow> string" where
  "basename p =
     (let segs = filter (\<lambda>s. s \<noteq> []) (split_slash p)
      in if segs = [] then [] else last segs)"

definition dirname :: "string \<Rightarrow> string" where
  "dirname p =
     (case p of
        [] \<Rightarrow> ''.''
      | c # cs \<Rightarrow>
          (case dropWhile (\<lambda>x. x \<noteq> CHR ''/'') (dropWhile (\<lambda>x. x = CHR ''/'') (rev cs)) of
             [] \<Rightarrow> if c = CHR ''/'' then ''/'' else ''.''
           | _ # r \<Rightarrow> if c = CHR ''/'' \<and> r = [] then ''//'' else c # rev r))"

section \<open>Data model\<close>

datatype LayerType = Core | Org | Custom

definition layerDir :: "LayerType \<Rightarrow> string" where
  "layerDir l = (case l of Core \<Rightarrow> ''core'' | Org \<Rightarrow> ''org'' | Custom \<Rightarrow> ''custom'')"

record AgentResolutionPath =
  arp_agentId :: string
  arp_coreSystem :: string
  arp_corePath :: string
  arp_finalPath :: string
  arp_layerSources :: "LayerType list"

record ResourceWithSource =
  rws_name :: string
  rws_path :: string
  rws_source :: LayerType

datatype DependencyKind = AgentDep | ResourceDep

record ResourceDependency =
  dep_type :: DependencyKind
  dep_name :: string
  dep_path :: string

record DependencyCheckResult =
  hasActive :: bool
  dependencies :: "ResourceDependency list"
  isCore :: bool

record BackupMetadata =
  bm_timestamp :: string
  bm_resourceName :: string
  bm_resourceType :: string
  bm_dependencies :: "ResourceDependency list"
  bm_originalPath :: string

record DeleteOptions =
  force :: "bool option"
  updateDeps :: "bool option"
  skipBackup :: "bool option"

text \<open>
  What \<^verbatim>\<open>getResourceMetadata\<close> gives for a resource: the code reads only its optional
  \<^verbatim>\<open>dependencies\<close> list.
\<close>

record ResourceMetadata =
  md_dependencies :: "string list option"

text \<open>
  The object \<^verbatim>\<open>loadAgent\<close> returns is typed \<^verbatim>\<open>any\<close>. Its readers look at five
  properties; a property the object does not have is \<open>None\<close>.
\<close>

record AgentDefinition =
  def_dependencies :: "(string \<times> string list) list option"

section \<open>Errors\<close>

text \<open>
  Every \<^verbatim>\<open>throw new Error(msg)\<close> of the source is \<open>Error msg\<close> with the source's
  message. \<open>TypeError\<close> is what JavaScript raises on reading a property of
  \<^verbatim>\<open>undefined\<close>. \<open>IOFailure\<close> is a rejected file-system call.
\<close>

datatype io_op =
    EnsureDir string
  | Copy string string
  | WriteJSON string
  | WriteFile string
  | Remove string
  | ReadJSON string
  | ReadFile string

datatype error = Error string | TypeError string | IOFailure io_op

definition CoreResourceProtected :: error where
  "CoreResourceProtected = Error ''Cannot delete core system resources. These resources are immutable.''"

text \<open>The dependent list of the message: \<^verbatim>\<open>dependencies.map(d => `${d.type} ${d.name}`).join(', ')\<close>.\<close>

fun join_comma :: "string list \<Rightarrow> string" where
  "join_comma [] = []"
| "join_comma [s] = s"
| "join_comma (s # t # ts) = s @ '', '' @ join_comma (t # ts)"

definition kindName :: "DependencyKind \<Rightarrow> string" where
  "kindName k = (case k of AgentDep \<Rightarrow> ''agent'' | ResourceDep \<Rightarrow> ''resource'')"

definition DependenciesExist :: "ResourceDependency list \<Rightarrow> error" where
  "DependenciesExist deps =
     Error (''Resource has active dependencies: ''
            @ join_comma (map (\<lambda>d. kindName (dep_type d) @ '' '' @ dep_name d) deps)
            @ ''. Use --force to override.'')"

section \<open>The file system and the other collaborators\<close>

text \<open>
  The file system is an association list from path to node, in directory-listing order.
  A file holds a text that is not JSON (\<open>Text\<close>), the document that \<^verbatim>\<open>writeJSON\<close> wrote
  (\<open>Document\<close>: the model keeps the document instead of its JSON text), or a JSON text
  that is no such document and has no \<^verbatim>\<open>originalPath\<close> (\<open>OtherJson\<close>).
  Paths are looked up as the code writes them: every path it hands to the file system
  comes out of \<^verbatim>\<open>path.join\<close> or \<^verbatim>\<open>path.dirname\<close>; a relative path is relative to the
  working directory and is a key of its own, and so is a path with a slash at its end
  (which \<^verbatim>\<open>path.join\<close> leaves when its last argument ends in one): it names no entry.
  Reading calls succeed on what exists: \<^verbatim>\<open>pathExists\<close> never fails, and \<^verbatim>\<open>readdir\<close> lists the
  entries directly below a path in the order of the list; the layer directories the
  code lists are taken to be directories when they exist. Reading a file that is a
  directory fails, as does parsing a text that is not JSON.
\<close>

datatype content = Text string | Document BackupMetadata | OtherJson string

datatype node = Dir | File content

type_synonym fs = "(string \<times> node) list"

text \<open>
  The world one call runs in: the file system, and the collaborators whose code is not
  part of the sources, as read-only oracles. \<open>activeCoreSystem\<close> is
  \<^verbatim>\<open>CoreSystemManager.getActiveCoreSystem()\<close>, \<open>getResourceMetadata\<close> is the method of
  \<^verbatim>\<open>ResourceResolver\<close> (taken to return, with the metadata or without), \<open>isoNow\<close> is
  \<^verbatim>\<open>new Date().toISOString()\<close>, and \<open>ioFails\<close> says which mutating file-system calls are
  rejected. A rejected call has written nothing; a rejected \<^verbatim>\<open>remove\<close> may have removed a
  part of what it was to remove before it failed, and \<open>removedOnReject\<close> says which paths.

  Modelled from the spec: \<open>declaredDependencies\<close> gives the dependency arrays, by kind, that
  the text of an agent's definition file declares. No function of the sources reads
  them out of the text; only the dependents as the specification words them use it.
\<close>

record world =
  files :: fs
  activeCoreSystem :: "string option"
  getResourceMetadata :: "string \<Rightarrow> string \<Rightarrow> ResourceMetadata option"
  isoNow :: string
  ioFails :: "io_op \<Rightarrow> bool"
  removedOnReject :: "string \<Rightarrow> bool"
  declaredDependencies :: "content \<Rightarrow> (string \<times> string list) list"

definition pathExists :: "fs \<Rightarrow> string \<Rightarrow> bool" where
  "pathExists fs p = (map_of fs p \<noteq> None)"

text \<open>\<open>under p q\<close>: the path \<open>q\<close> is \<open>p\<close> itself or lies below the directory \<open>p\<close>.\<close>

definition under :: "string \<Rightarrow> string \<Rightarrow> bool" where
  "under p q = (q = p \<or> prefix (p @ ''/'') q)"

definition readdir :: "fs \<Rightarrow> string \<Rightarrow> string list" where
  "readdir fs p =
     map (\<lambda>(q, n). drop (length p + 1) q)
       (filter (\<lambda>(q, n). prefix (p @ ''/'') q \<and> drop (length p + 1) q \<noteq> []
                          \<and> CHR ''/'' \<notin> set (drop (length p + 1) q)) fs)"

definition readFile :: "fs \<Rightarrow> string \<Rightarrow> error + content" where
  "readFile fs p =
     (case map_of fs p of Some (File c) \<Rightarrow> Inr c | _ \<Rightarrow> Inl (IOFailure (ReadFile p)))"

text \<open>
  \<^verbatim>\<open>fs.readJSON(p)\<close> gives the parsed value: the metadata document, or a value without the
  properties of one (\<open>None\<close>).
\<close>

definition readJSON :: "fs \<Rightarrow> string \<Rightarrow> error + BackupMetadata option" where
  "readJSON fs p =
     (case map_of fs p of
        Some (File (Document m)) \<Rightarrow> Inr (Some m)
      | Some (File (OtherJson t)) \<Rightarrow> Inr None
      | _ \<Rightarrow> Inl (IOFailure (ReadJSON p)))"

text \<open>The directories \<^verbatim>\<open>mkdirs\<close> makes for a path: each prefix that ends before a slash, and the path.\<close>

definition dirChain :: "string \<Rightarrow> string list" where
  "dirChain p = map (\<lambda>i. take i p) (filter (\<lambda>i. i = length p \<or> p ! i = CHR ''/'') [1..<Suc (length p)])"

definition mkdirs :: "string \<Rightarrow> fs \<Rightarrow> fs" where
  "mkdirs p fs = fold (\<lambda>d acc. if pathExists acc d then acc else AList.update d Dir acc) (dirChain p) fs"

definition ensureDir :: "string \<Rightarrow> world \<Rightarrow> error + world" where
  "ensureDir p w =
     (if ioFails w (EnsureDir p) then Inl (IOFailure (EnsureDir p))
      else Inr (w\<lparr>files := mkdirs p (files w)\<rparr>))"

text \<open>
  \<^verbatim>\<open>fs.copy(src, dest)\<close> of fs-extra: the file, or the directory with everything below it,
  is written at \<open>dest\<close>, after the parent of \<open>dest\<close> is made. A file is written over a
  file and a directory is merged into a directory; fs-extra refuses to write a file
  where a directory is or a directory where a file is, and to copy a path onto itself
  or into itself. The model refuses such a copy as a whole.
\<close>

definition copied :: "string \<Rightarrow> string \<Rightarrow> fs \<Rightarrow> fs" where
  "copied src dst fs =
     map (\<lambda>(q, n). (dst @ drop (length src) q, n)) (filter (\<lambda>(q, n). under src q) fs)"

definition kindClash :: "fs \<Rightarrow> fs \<Rightarrow> bool" where
  "kindClash new fs =
     list_ex (\<lambda>(q, n). case map_of fs q of
                          None \<Rightarrow> False
                        | Some old \<Rightarrow> (n = Dir) \<noteq> (old = Dir)) new"

definition fs_copy :: "string \<Rightarrow> string \<Rightarrow> world \<Rightarrow> error + world" where
  "fs_copy src dst w =
     (if ioFails w (Copy src dst) \<or> \<not> pathExists (files w) src \<or> under src dst
         \<or> kindClash (copied src dst (files w)) (files w)
      then Inl (IOFailure (Copy src dst))
      else Inr (w\<lparr>files := AList.merge (mkdirs (dirname dst) (files w)) (copied src dst (files w))\<rparr>))"

definition writeJSON :: "string \<Rightarrow> BackupMetadata \<Rightarrow> world \<Rightarrow> error + world" where
  "writeJSON p m w =
     (if ioFails w (WriteJSON p) \<or> map_of (files w) (dirname p) \<noteq> Some Dir \<or> map_of (files w) p = Some Dir
      then Inl (IOFailure (WriteJSON p))
      else Inr (w\<lparr>files := AList.update p (File (Document m)) (files w)\<rparr>))"

definition writeFile :: "string \<Rightarrow> content \<Rightarrow> world \<Rightarrow> error + world" where
  "writeFile p c w =
     (if ioFails w (WriteFile p) \<or> map_of (files w) (dirname p) \<noteq> Some Dir \<or> map_of (files w) p = Some Dir
      then Inl (IOFailure (WriteFile p))
      else Inr (w\<lparr>files := AList.update p (File c) (files w)\<rparr>))"

text \<open>
  \<^verbatim>\<open>fs.remove(p)\<close>: the entry and everything below it go; an absent path is no error. The
  call removes entry by entry, so a rejected call leaves the world without the entries
  it had removed by then.
\<close>

definition fs_remove :: "string \<Rightarrow> world \<Rightarrow> (error + unit) \<times> world" where
  "fs_remove p w =
     (if ioFails w (Remove p)
      then (Inl (IOFailure (Remove p)),
            w\<lparr>files := filter (\<lambda>(q, n). \<not> (under p q \<and> removedOnReject w q)) (files w)\<rparr>)
      else (Inr (), w\<lparr>files := filter (\<lambda>(q, n). \<not> under p q) (files w)\<rparr>))"

text \<open>JavaScript's \<^verbatim>\<open>a || b\<close> on an optional string: \<^verbatim>\<open>null\<close> and the empty string are falsy.\<close>

definition falsy :: "string option \<Rightarrow> bool" where
  "falsy a = (a = None \<or> a = Some [])"

definition js_or :: "string option \<Rightarrow> string \<Rightarrow> string" where
  "js_or a b = (case a of None \<Rightarrow> b | Some s \<Rightarrow> if s = [] then b else s)"

section \<open>LayerManager\<close>

record Agent =
  ag_name :: string
  ag_content :: content
  ag_path :: "AgentResolutionPath option"
  ag_dependencies :: "(string \<times> string list) list option"
  ag_definition :: "AgentDefinition option"

definition lcagentsPath :: "string \<Rightarrow> string" where
  "lcagentsPath basePath = path_join [basePath, ''.lcagents'']"

definition resolveAgent :: "string \<Rightarrow> world \<Rightarrow> string \<Rightarrow> string option \<Rightarrow> AgentResolutionPath" where
  "resolveAgent basePath w agentId coreSystem =
     (let activeCore = js_or coreSystem (js_or (activeCoreSystem w) ''bmad-core'')
      in if falsy (activeCoreSystem w)
         then \<lparr>arp_agentId = agentId, arp_coreSystem = [], arp_corePath = [], arp_finalPath = [],
               arp_layerSources = []\<rparr>
         else
           let activeCoreSystem = js_or (activeCoreSystem w) [];
               corePath = path_join [lcagentsPath basePath, ''core'', ''.'' @ activeCoreSystem,
                                     ''agents'', agentId @ ''.md''];
               orgOverridePath = path_join [lcagentsPath basePath, ''org'', ''agents'', ''overrides'',
                                            agentId @ ''.yaml''];
               customOverridePath = path_join [lcagentsPath basePath, ''custom'', ''agents'',
                                               ''overrides'', agentId @ ''.yaml''];
               layerSources = [Core]
                 @ (if pathExists (files w) orgOverridePath then [Org] else [])
                 @ (if pathExists (files w) customOverridePath then [Custom] else []);
               finalPath = corePath
           in \<lparr>arp_agentId = agentId, arp_coreSystem = activeCore, arp_corePath = corePath,
               arp_finalPath = finalPath, arp_layerSources = layerSources\<rparr>)"

definition listAgents :: "string \<Rightarrow> world \<Rightarrow> string list" where
  "listAgents basePath w =
     (if falsy (activeCoreSystem w) then []
      else
        let activeCore = js_or (activeCoreSystem w) [];
            agentsPath = path_join [lcagentsPath basePath, ''core'', ''.'' @ activeCore, ''agents'']
        in if \<not> pathExists (files w) agentsPath then []
           else map (\<lambda>file. replace_first file ''.md'' [])
                  (filter (\<lambda>file. endsWith file ''.md'') (readdir (files w) agentsPath)))"

definition loadAgent :: "string \<Rightarrow> world \<Rightarrow> string \<Rightarrow> error + Agent" where
  "loadAgent basePath w agentName =
     (let agentPath = resolveAgent basePath w agentName None
      in if \<not> pathExists (files w) (arp_corePath agentPath)
         then Inl (Error (''Agent '' @ agentName @ '' not found''))
         else (case readFile (files w) (arp_corePath agentPath) of
                 Inl e \<Rightarrow> Inl e
               | Inr agentContent \<Rightarrow>
                   Inr \<lparr>ag_name = agentName, ag_content = agentContent, ag_path = Some agentPath,
                        ag_dependencies = None, ag_definition = None\<rparr>))"

definition saveAgent :: "Agent \<Rightarrow> world \<Rightarrow> (error + unit) \<times> world" where
  "saveAgent agent w =
     (case ag_path agent of
        None \<Rightarrow> (Inl (Error ''Invalid agent object - missing path information''), w)
      | Some pth \<Rightarrow>
          if arp_corePath pth = []
          then (Inl (Error ''Invalid agent object - missing path information''), w)
          else (case ensureDir (dirname (arp_corePath pth)) w of
                  Inl e \<Rightarrow> (Inl e, w)
                | Inr w1 \<Rightarrow>
                    (case writeFile (arp_corePath pth) (ag_content agent) w1 of
                       Inl e \<Rightarrow> (Inl e, w1)
                     | Inr w2 \<Rightarrow> (Inr (), w2))))"

definition layerListing :: "fs \<Rightarrow> string \<Rightarrow> LayerType \<Rightarrow> ResourceWithSource list" where
  "layerListing fs resourcePath source =
     (if pathExists fs resourcePath
      then map (\<lambda>file. \<lparr>rws_name = file, rws_path = path_join [resourcePath, file], rws_source = source\<rparr>)
             (readdir fs resourcePath)
      else [])"

definition listResources :: "string \<Rightarrow> world \<Rightarrow> string \<Rightarrow> ResourceWithSource list" where
  "listResources basePath w resourceType =
     (if falsy (activeCoreSystem w) then []
      else
        let activeCore = js_or (activeCoreSystem w) [];
            coreResourcePath = path_join [lcagentsPath basePath, ''core'', ''.'' @ activeCore, resourceType];
            orgResourcePath = path_join [lcagentsPath basePath, ''org'', resourceType];
            customResourcePath = path_join [lcagentsPath basePath, ''custom'', resourceType]
        in layerListing (files w) coreResourcePath Core
           @ layerListing (files w) orgResourcePath Org
           @ layerListing (files w) customResourcePath Custom)"

definition getResourcePath :: "string \<Rightarrow> world \<Rightarrow> string \<Rightarrow> string \<Rightarrow> string option" where
  "getResourcePath basePath w resourceType resourceName =
     (if falsy (activeCoreSystem w) then None
      else
        let activeCore = js_or (activeCoreSystem w) [];
            resourcePath = path_join [lcagentsPath basePath, ''core'', ''.'' @ activeCore,
                                      resourceType, resourceName]
        in if pathExists (files w) resourcePath then Some resourcePath else None)"

definition templatePath :: "string \<Rightarrow> string \<Rightarrow> LayerType \<Rightarrow> string \<Rightarrow> string" where
  "templatePath basePath activeCore layer templateName =
     (if layer = Core
      then path_join [lcagentsPath basePath, layerDir layer, ''.'' @ activeCore, ''templates'', templateName]
      else path_join [lcagentsPath basePath, layerDir layer, ''templates'', templateName])"

fun firstTemplate :: "string \<Rightarrow> fs \<Rightarrow> string \<Rightarrow> string \<Rightarrow> LayerType list \<Rightarrow> error + ResourceWithSource" where
  "firstTemplate basePath fs activeCore templateName [] =
     Inl (Error (''Template '' @ templateName @ '' not found in any layer''))"
| "firstTemplate basePath fs activeCore templateName (layer # layers) =
     (if pathExists fs (templatePath basePath activeCore layer templateName)
      then Inr \<lparr>rws_name = templateName,
                rws_path = templatePath basePath activeCore layer templateName,
                rws_source = layer\<rparr>
      else firstTemplate basePath fs activeCore templateName layers)"

definition resolveTemplate :: "string \<Rightarrow> world \<Rightarrow> string \<Rightarrow> error + ResourceWithSource" where
  "resolveTemplate basePath w templateName =
     (if falsy (activeCoreSystem w) then Inl (Error ''No active core system found'')
      else firstTemplate basePath (files w) (js_or (activeCoreSystem w) []) templateName
             [Custom, Org, Core])"

text \<open>
  The directory in which a layer keeps its templates: the path \<open>templatePath\<close> joins,
  without the template's name.
\<close>

definition templatesDir :: "string \<Rightarrow> string \<Rightarrow> LayerType \<Rightarrow> string" where
  "templatesDir basePath activeCore layer =
     (if layer = Core
      then path_join [lcagentsPath basePath, layerDir layer, ''.'' @ activeCore, ''templates'']
      else path_join [lcagentsPath basePath, layerDir layer, ''templates''])"

section \<open>SafeDeleteManager\<close>

text \<open>
  The manager is modelled after its asynchronous \<^verbatim>\<open>initialize\<close> has completed: the layer
  manager and the resource resolver are set and share the manager's base path.
\<close>

definition backupDir :: string where
  "backupDir = ''.lcagents/backups''"

definition isCoreResource :: "string \<Rightarrow> bool" where
  "isCoreResource resourcePath = str_includes resourcePath ''.lcagents/core/''"

text \<open>\<^verbatim>\<open>toISOString().replace(/[:.]/g, '-')\<close>: every colon and period becomes a hyphen.\<close>

definition fileTimestamp :: "string \<Rightarrow> string" where
  "fileTimestamp isoString =
     map (\<lambda>c. if c = CHR '':'' \<or> c = CHR ''.'' then CHR ''-'' else c) isoString"

definition createBackup ::
  "string \<Rightarrow> world \<Rightarrow> string \<Rightarrow> string \<Rightarrow> ResourceDependency list \<Rightarrow> (error + string) \<times> world" where
  "createBackup basePath w resourceName resourceType deps =
     (let timestamp = fileTimestamp (isoNow w);
          backupName = resourceName @ ''-'' @ timestamp;
          backupPath = path_join [backupDir, backupName]
      in case getResourcePath basePath w resourceType resourceName of
           None \<Rightarrow> (Inl (Error (''Resource not found: '' @ resourceName)), w)
         | Some originalPath \<Rightarrow>
             let metadata = \<lparr>bm_timestamp = timestamp, bm_resourceName = resourceName,
                             bm_resourceType = resourceType, bm_dependencies = deps,
                             bm_originalPath = originalPath\<rparr>
             in (case ensureDir backupPath w of
                   Inl e \<Rightarrow> (Inl e, w)
                 | Inr w1 \<Rightarrow>
                     (case fs_copy originalPath (path_join [backupPath, basename originalPath]) w1 of
                        Inl e \<Rightarrow> (Inl e, w1)
                      | Inr w2 \<Rightarrow>
                          (case writeJSON (path_join [backupPath, ''metadata.json'']) metadata w2 of
                             Inl e \<Rightarrow> (Inl e, w2)
                           | Inr w3 \<Rightarrow> (Inr backupPath, w3)))))"

text \<open>
  The loop over the agents. An agent that fails to load is skipped (the \<^verbatim>\<open>catch\<close> only
  logs); so is one whose object has no \<^verbatim>\<open>path\<close>, whose read raises inside the same
  \<^verbatim>\<open>try\<close>. \<open>loader\<close> is the call \<^verbatim>\<open>this.layerManager.loadAgent\<close>.
\<close>

fun scanAgents ::
  "(string \<Rightarrow> error + Agent) \<Rightarrow> string \<Rightarrow> string list \<Rightarrow> ResourceDependency list \<Rightarrow> ResourceDependency list" where
  "scanAgents loader resourceName [] deps = deps"
| "scanAgents loader resourceName (agentName # rest) deps =
     (case loader agentName of
        Inl e \<Rightarrow> scanAgents loader resourceName rest deps
      | Inr agent \<Rightarrow>
          let agentDeps = (case ag_dependencies agent of None \<Rightarrow> [] | Some d \<Rightarrow> d);
              allDeps = map snd agentDeps
          in if list_ex (\<lambda>names. resourceName \<in> set names) allDeps
             then (case ag_path agent of
                     None \<Rightarrow> scanAgents loader resourceName rest deps
                   | Some pth \<Rightarrow>
                       scanAgents loader resourceName rest
                         (deps @ [\<lparr>dep_type = AgentDep, dep_name = agentName, dep_path = arp_corePath pth\<rparr>]))
             else scanAgents loader resourceName rest deps)"

text \<open>The loop over the resources of the same type; \<^verbatim>\<open>metadata?.dependencies?.includes(resourceName)\<close>.\<close>

fun scanResources ::
  "(string \<Rightarrow> ResourceMetadata option) \<Rightarrow> string \<Rightarrow> ResourceWithSource list \<Rightarrow> ResourceDependency list
     \<Rightarrow> ResourceDependency list" where
  "scanResources metadataOf resourceName [] deps = deps"
| "scanResources metadataOf resourceName (resource # rest) deps =
     (if rws_name resource = resourceName then scanResources metadataOf resourceName rest deps
      else if (case metadataOf (rws_name resource) of
                 None \<Rightarrow> False
               | Some metadata \<Rightarrow>
                   (case md_dependencies metadata of None \<Rightarrow> False | Some ds \<Rightarrow> resourceName \<in> set ds))
      then scanResources metadataOf resourceName rest
             (deps @ [\<lparr>dep_type = ResourceDep, dep_name = rws_name resource, dep_path = rws_path resource\<rparr>])
      else scanResources metadataOf resourceName rest deps)"

definition checkDependencies :: "string \<Rightarrow> world \<Rightarrow> string \<Rightarrow> string \<Rightarrow> error + DependencyCheckResult" where
  "checkDependencies basePath w resourceName resourceType =
     (case getResourcePath basePath w resourceType resourceName of
        None \<Rightarrow> Inl (Error (''Resource not found: '' @ resourceName))
      | Some resourcePath \<Rightarrow>
          let core = isCoreResource resourcePath;
              agents = listAgents basePath w;
              deps1 = scanAgents (loadAgent basePath w) resourceName agents [];
              resources = listResources basePath w resourceType;
              deps2 = scanResources (getResourceMetadata w resourceType) resourceName resources deps1
          in Inr \<lparr>hasActive = (length deps2 > 0), dependencies = deps2, isCore = core\<rparr>)"

text \<open>
  \<^verbatim>\<open>path.dirname(metadata.originalPath)\<close> raises a \<open>TypeError\<close> when the parsed metadata has no
  \<^verbatim>\<open>originalPath\<close> (Node's message, without its quotation marks).
\<close>

definition restoreBackup :: "string \<Rightarrow> world \<Rightarrow> error + world" where
  "restoreBackup backupPath w =
     (let metadataPath = path_join [backupPath, ''metadata.json'']
      in if \<not> pathExists (files w) metadataPath then Inl (Error ''Invalid backup: metadata not found'')
         else (case readJSON (files w) metadataPath of
                 Inl e \<Rightarrow> Inl e
               | Inr None \<Rightarrow>
                   Inl (TypeError ''The path argument must be of type string. Received undefined'')
               | Inr (Some metadata) \<Rightarrow>
                   let originalPath = bm_originalPath metadata;
                       parentDir = dirname originalPath
                   in if \<not> pathExists (files w) parentDir
                      then Inl (Error ''Original resource location no longer exists'')
                      else
                        let backupFile = path_join [backupPath, basename (bm_originalPath metadata)]
                        in fs_copy backupFile originalPath w))"

text \<open>
  \<^verbatim>\<open>deps.indexOf(resourceName)\<close> and \<^verbatim>\<open>deps.splice(index, 1)\<close> take the first occurrence out of
  each array in place; the arrays live in \<^verbatim>\<open>agent.definition.dependencies\<close>. Reading that
  property of an object without \<^verbatim>\<open>definition\<close> raises a \<open>TypeError\<close>.
\<close>

definition spliceResource :: "string \<Rightarrow> AgentDefinition \<Rightarrow> AgentDefinition" where
  "spliceResource resourceName defn =
     defn\<lparr>def_dependencies :=
            map_option (map (\<lambda>(k, names). (k, remove1 resourceName names))) (def_dependencies defn)\<rparr>"

fun updateDependencies ::
  "string \<Rightarrow> world \<Rightarrow> string \<Rightarrow> ResourceDependency list \<Rightarrow> (error + unit) \<times> world" where
  "updateDependencies basePath w resourceName [] = (Inr (), w)"
| "updateDependencies basePath w resourceName (dep # rest) =
     (if dep_type dep = AgentDep
      then (case loadAgent basePath w (dep_name dep) of
              Inl e \<Rightarrow> (Inl e, w)
            | Inr agent \<Rightarrow>
                (case ag_definition agent of
                   None \<Rightarrow> (Inl (TypeError ''Cannot read properties of undefined (reading dependencies)''), w)
                 | Some defn \<Rightarrow>
                     (case saveAgent (agent\<lparr>ag_definition := Some (spliceResource resourceName defn)\<rparr>) w of
                        (Inl e, w1) \<Rightarrow> (Inl e, w1)
                      | (Inr u, w1) \<Rightarrow> updateDependencies basePath w1 resourceName rest)))
      else updateDependencies basePath w resourceName rest)"

text \<open>
  One run of \<^verbatim>\<open>safeDelete\<close> gives its result, the world it leaves, and the steps it entered,
  in order (the steps are a record of the run, not a value of the source).
\<close>

datatype step = Check | Gate | Backup | Mutate | PostUpdate | Rollback

record Outcome =
  result :: "error + unit"
  final :: world
  steps :: "step list"

definition optionSet :: "bool option \<Rightarrow> bool" where
  "optionSet b = (case b of None \<Rightarrow> False | Some v \<Rightarrow> v)"

text \<open>The body of the \<^verbatim>\<open>try\<close>: steps 5 to 7 of the source.\<close>

definition removeAndUpdate ::
  "string \<Rightarrow> world \<Rightarrow> string \<Rightarrow> string \<Rightarrow> bool \<Rightarrow> ResourceDependency list \<Rightarrow> Outcome" where
  "removeAndUpdate basePath w resourceName resourceType update deps =
     (case getResourcePath basePath w resourceType resourceName of
        None \<Rightarrow> \<lparr>result = Inl (Error (''Resource not found: '' @ resourceName)), final = w, steps = [Mutate]\<rparr>
      | Some resourcePath \<Rightarrow>
          (case fs_remove resourcePath w of
             (Inl e, w1) \<Rightarrow> \<lparr>result = Inl e, final = w1, steps = [Mutate]\<rparr>
           | (Inr u, w1) \<Rightarrow>
               if update
               then (case updateDependencies basePath w1 resourceName deps of
                       (r, w2) \<Rightarrow> \<lparr>result = r, final = w2, steps = [Mutate, PostUpdate]\<rparr>)
               else \<lparr>result = Inr (), final = w1, steps = [Mutate]\<rparr>))"

definition safeDelete :: "string \<Rightarrow> world \<Rightarrow> string \<Rightarrow> string \<Rightarrow> DeleteOptions \<Rightarrow> Outcome" where
  "safeDelete basePath w resourceName resourceType options =
     (case checkDependencies basePath w resourceName resourceType of
        Inl e \<Rightarrow> \<lparr>result = Inl e, final = w, steps = [Check]\<rparr>
      | Inr dependencyCheck \<Rightarrow>
          if isCore dependencyCheck
          then \<lparr>result = Inl CoreResourceProtected, final = w, steps = [Check]\<rparr>
          else if hasActive dependencyCheck \<and> \<not> optionSet (force options)
          then \<lparr>result = Inl (DependenciesExist (dependencies dependencyCheck)), final = w,
                steps = [Check, Gate]\<rparr>
          else
            (case (if \<not> optionSet (skipBackup options)
                   then (case createBackup basePath w resourceName resourceType
                                 (dependencies dependencyCheck) of
                           (Inl e, w1) \<Rightarrow> Inl (e, w1)
                         | (Inr backupPath, w1) \<Rightarrow> Inr (Some backupPath, w1, [Check, Gate, Backup]))
                   else Inr (None, w, [Check, Gate])) of
               Inl (e, w1) \<Rightarrow> \<lparr>result = Inl e, final = w1, steps = [Check, Gate, Backup]\<rparr>
             | Inr (backupPath, w1, entered) \<Rightarrow>
                 let body = removeAndUpdate basePath w1 resourceName resourceType
                              (optionSet (updateDeps options)) (dependencies dependencyCheck)
                 in (case result body of
                       Inr u \<Rightarrow> \<lparr>result = Inr (), final = final body, steps = entered @ steps body\<rparr>
                     | Inl err \<Rightarrow>
                         if falsy backupPath
                         then \<lparr>result = Inl err, final = final body, steps = entered @ steps body\<rparr>
                         else (case restoreBackup (js_or backupPath []) (final body) of
                                 Inl e2 \<Rightarrow> \<lparr>result = Inl e2, final = final body,
                                            steps = entered @ steps body @ [Rollback]\<rparr>
                               | Inr w3 \<Rightarrow> \<lparr>result = Inl err, final = w3,
                                            steps = entered @ steps body @ [Rollback]\<rparr>))))"

section \<open>What the loop over the agents records\<close>

text \<open>
  The entry the agents' loop pushes for one agent name: it reads the arrays from the
  property \<^verbatim>\<open>dependencies\<close> of the object the loader returned.
\<close>

definition scannedEntry :: "(string \<Rightarrow> error + Agent) \<Rightarrow> string \<Rightarrow> string \<Rightarrow> ResourceDependency option" where
  "scannedEntry loader resourceName agentName =
     (case loader agentName of
        Inl e \<Rightarrow> None
      | Inr agent \<Rightarrow>
          (case (ag_dependencies agent, ag_path agent) of
             (Some arrays, Some pth) \<Rightarrow>
               if list_ex (\<lambda>names. resourceName \<in> set names) (map snd arrays)
               then Some \<lparr>dep_type = AgentDep, dep_name = agentName, dep_path = arp_corePath pth\<rparr>
               else None
           | _ \<Rightarrow> None))"

section \<open>The dependents of a resource, as the specification words them\<close>

text \<open>
  The entry an agent contributes: an agent that loads and whose definition file
  declares the resource name in one of its dependency arrays is an agent-kind
  dependent, named by the agent and located at the agent's file; an agent that fails to
  load contributes nothing. The entry a resource of the same type contributes: a
  resource other than the target whose metadata lists the resource name is a
  resource-kind dependent. The dependents are the agents' entries in listing order,
  then the resources' entries in listing order.
\<close>

definition agentEntry :: "string \<Rightarrow> world \<Rightarrow> string \<Rightarrow> string \<Rightarrow> ResourceDependency option" where
  "agentEntry basePath w resourceName agentName =
     (case loadAgent basePath w agentName of
        Inl e \<Rightarrow> None
      | Inr agent \<Rightarrow>
          if list_ex (\<lambda>names. resourceName \<in> set names)
               (map snd (declaredDependencies w (ag_content agent)))
          then Some \<lparr>dep_type = AgentDep, dep_name = agentName,
                     dep_path = arp_corePath (resolveAgent basePath w agentName None)\<rparr>
          else None)"

definition resourceEntry ::
  "(string \<Rightarrow> ResourceMetadata option) \<Rightarrow> string \<Rightarrow> ResourceWithSource \<Rightarrow> ResourceDependency option" where
  "resourceEntry metadataOf resourceName resource =
     (if rws_name resource = resourceName then None
      else (case metadataOf (rws_name resource) of
              None \<Rightarrow> None
            | Some metadata \<Rightarrow>
                (case md_dependencies metadata of
                   None \<Rightarrow> None
                 | Some ds \<Rightarrow>
                     if resourceName \<in> set ds
                     then Some \<lparr>dep_type = ResourceDep, dep_name = rws_name resource,
                                dep_path = rws_path resource\<rparr>
                     else None)))"

definition dependents :: "string \<Rightarrow> world \<Rightarrow> string \<Rightarrow> string \<Rightarrow> ResourceDependency list" where
  "dependents basePath w resourceName resourceType =
     List.map_filter (agentEntry basePath w resourceName) (listAgents basePath w)
     @ List.map_filter (resourceEntry (getResourceMetadata w resourceType) resourceName)
         (listResources basePath w resourceType)"

section \<open>Plain path segments\<close>

text \<open>
  A plain segment is a name that \<^verbatim>\<open>path.join\<close> keeps as it is: not empty, without a slash,
  and neither \<^verbatim>\<open>.\<close> nor \<^verbatim>\<open>..\<close>. \<open>normPrefix b\<close> is what normalisation leaves of the part
  \<open>b\<close> of a path in front of plain segments, with its closing slash.
\<close>

definition plainSegment :: "string \<Rightarrow> bool" where
  "plainSegment s = (s \<noteq> [] \<and> CHR ''/'' \<notin> set s \<and> s \<noteq> ''.'' \<and> s \<noteq> ''..'')"

definition normPrefix :: "string \<Rightarrow> string" where
  "normPrefix b =
     (let isAbsolute = (hd (b @ ''/'') = CHR ''/'');
          kept = normalizeString (\<not> isAbsolute) [] (split_slash b)
      in (if isAbsolute then ''/'' else []) @ (if kept = [] then [] else join_slash kept @ ''/''))"

definition joinPrefix :: "string \<Rightarrow> string" where
  "joinPrefix pre = (if pre = [] then [] else normPrefix (butlast pre))"

definition lcagentsPrefix :: "string \<Rightarrow> string" where
  "lcagentsPrefix basePath = (if basePath = [] then [] else normPrefix basePath)"

section \<open>A backup that lies apart from its resource\<close>

text \<open>
  The place of a backup is apart from the resource at \<open>p\<close> when nothing exists yet where
  the copy goes, when the resource, the copy and the metadata file do not lie inside one
  another, and when none of the directories made on the way lies in the resource or in
  the copy.
\<close>

definition backupApart :: "fs \<Rightarrow> string \<Rightarrow> string \<Rightarrow> bool" where
  "backupApart fs p backupPath =
     (let backupFile = path_join [backupPath, basename p];
          metadataPath = path_join [backupPath, ''metadata.json''];
          made = dirChain backupPath @ dirChain (dirname backupFile) @ dirChain (dirname p)
      in list_all (\<lambda>(k, n). \<not> under backupFile k) fs
         \<and> \<not> under p backupFile \<and> \<not> under backupFile p
         \<and> \<not> under backupFile metadataPath \<and> \<not> under p metadataPath
         \<and> list_all (\<lambda>d. \<not> under backupFile d \<and> \<not> under p d) made)"

text \<open>The directory \<open>createBackup\<close> makes for a resource name, at the time of the world.\<close>

definition backupPathOf :: "world \<Rightarrow> string \<Rightarrow> string" where
  "backupPathOf w resourceName =
     path_join [backupDir, resourceName @ ''-'' @ fileTimestamp (isoNow w)]"

section \<open>Example installations\<close>

text \<open>A project without an active core system that has a custom template.\<close>

definition noCoreWorld :: world where
  "noCoreWorld =
     \<lparr>files = [(''/p'', Dir), (''/p/.lcagents'', Dir), (''/p/.lcagents/custom'', Dir),
               (''/p/.lcagents/custom/templates'', Dir),
               (''/p/.lcagents/custom/templates/story.md'', File (Text ''custom story''))],
      activeCoreSystem = None,
      getResourceMetadata = (\<lambda>t n. None),
      isoNow = ''2026-01-01T00:00:00.000Z'',
      ioFails = (\<lambda>x. False),
      removedOnReject = (\<lambda>q. False),
      declaredDependencies = (\<lambda>c. [])\<rparr>"

text \<open>A project on core system \<^verbatim>\<open>bmad\<close> whose template exists in the core and org layers.\<close>

definition layeredWorld :: world where
  "layeredWorld =
     \<lparr>files = [(''/p'', Dir), (''/p/.lcagents'', Dir), (''/p/.lcagents/core'', Dir),
               (''/p/.lcagents/core/.bmad'', Dir),
               (''/p/.lcagents/core/.bmad/templates'', Dir),
               (''/p/.lcagents/core/.bmad/templates/story.md'', File (Text ''core story'')),
               (''/p/.lcagents/org'', Dir), (''/p/.lcagents/org/templates'', Dir),
               (''/p/.lcagents/org/templates/story.md'', File (Text ''org story''))],
      activeCoreSystem = Some ''bmad'',
      getResourceMetadata = (\<lambda>t n. None),
      isoNow = ''2026-01-01T00:00:00.000Z'',
      ioFails = (\<lambda>x. False),
      removedOnReject = (\<lambda>q. False),
      declaredDependencies = (\<lambda>c. [])\<rparr>"

text \<open>
  A project in \<^verbatim>\<open>/p\<close> on core system \<^verbatim>\<open>bmad\<close>: agent \<^verbatim>\<open>dev\<close> declares the core template
  \<^verbatim>\<open>story.md\<close> and the custom template \<^verbatim>\<open>note.md\<close> in its dependency arrays, the entry
  \<^verbatim>\<open>broken.md\<close> among the agents is a directory and cannot be read, the core template \<^verbatim>\<open>epic.md\<close> lists \<^verbatim>\<open>prd.md\<close> in its
  metadata, and the custom layer has the templates \<^verbatim>\<open>note.md\<close> and \<^verbatim>\<open>memo.md\<close> of its own.
\<close>

definition projectFiles :: fs where
  "projectFiles =
     [(''/p'', Dir), (''/p/.lcagents'', Dir), (''/p/.lcagents/core'', Dir),
      (''/p/.lcagents/core/.bmad'', Dir),
      (''/p/.lcagents/core/.bmad/agents'', Dir),
      (''/p/.lcagents/core/.bmad/agents/broken.md'', Dir),
      (''/p/.lcagents/core/.bmad/agents/dev.md'', File (Text ''dependencies: {templates: [story.md, note.md]}'')),
      (''/p/.lcagents/core/.bmad/templates'', Dir),
      (''/p/.lcagents/core/.bmad/templates/story.md'', File (Text ''core story'')),
      (''/p/.lcagents/core/.bmad/templates/prd.md'', File (Text ''core prd'')),
      (''/p/.lcagents/core/.bmad/templates/epic.md'', File (Text ''core epic'')),
      (''/p/.lcagents/custom'', Dir), (''/p/.lcagents/custom/templates'', Dir),
      (''/p/.lcagents/custom/templates/note.md'', File (Text ''custom note'')),
      (''/p/.lcagents/custom/templates/memo.md'', File (Text ''custom memo'')),
      (''.lcagents'', Dir), (''.lcagents/backups'', Dir)]"

definition projectMetadata :: "string \<Rightarrow> string \<Rightarrow> ResourceMetadata option" where
  "projectMetadata resourceType resourceName =
     (if resourceType = ''templates'' \<and> resourceName = ''epic.md''
      then Some \<lparr>md_dependencies = Some [''prd.md'']\<rparr> else None)"

definition neverFails :: "io_op \<Rightarrow> bool" where
  "neverFails call = False"

definition nothingRemoved :: "string \<Rightarrow> bool" where
  "nothingRemoved q = False"

text \<open>What the texts of the agents' files of the examples declare.\<close>

definition projectDeclares :: "content \<Rightarrow> (string \<times> string list) list" where
  "projectDeclares c =
     (if c = Text ''dependencies: {templates: [story.md, note.md]}''
      then [(''templates'', [''story.md'', ''note.md''])]
      else if c = Text ''dependencies: {templates: [../../../custom/templates/memo.md]}''
      then [(''templates'', [''../../../custom/templates/memo.md''])]
      else if c = Text ''dependencies: {templates: [prd.md]}''
      then [(''templates'', [''prd.md''])]
      else [])"

definition projectWorld :: world where
  "projectWorld =
     \<lparr>files = projectFiles,
      activeCoreSystem = Some ''bmad'',
      getResourceMetadata = projectMetadata,
      isoNow = ''2026-01-01T00:00:00.000Z'',
      ioFails = neverFails,
      removedOnReject = nothingRemoved,
      declaredDependencies = projectDeclares\<rparr>"

text \<open>
  The same project with rejected file-system calls. The resource name climbs from the
  core templates to the custom template \<^verbatim>\<open>memo.md\<close>, which is then not a core resource.
\<close>

definition failsOn :: "io_op list \<Rightarrow> io_op \<Rightarrow> bool" where
  "failsOn calls call = (call \<in> set calls)"

definition memoName :: string where
  "memoName = ''../../../custom/templates/memo.md''"

definition memoPath :: string where
  "memoPath = ''/p/.lcagents/custom/templates/memo.md''"

definition memoBackup :: string where
  "memoBackup = ''../custom/templates/memo.md-2026-01-01T00-00-00-000Z''"

definition backupFailWorld :: world where
  "backupFailWorld = projectWorld\<lparr>ioFails := failsOn [Copy memoPath (memoBackup @ ''/memo.md'')]\<rparr>"

definition removeFailWorld :: world where
  "removeFailWorld = projectWorld\<lparr>ioFails := failsOn [Remove memoPath]\<rparr>"

definition doubleFailWorld :: world where
  "doubleFailWorld =
     projectWorld\<lparr>ioFails := failsOn [Remove memoPath, Copy (memoBackup @ ''/memo.md'') memoPath]\<rparr>"

definition plainOptions :: DeleteOptions where
  "plainOptions = \<lparr>force = None, updateDeps = None, skipBackup = None\<rparr>"

definition memoCheck :: DependencyCheckResult where
  "memoCheck = \<lparr>hasActive = False, dependencies = [], isCore = False\<rparr>"

text \<open>
  The project with one more agent, \<^verbatim>\<open>ops\<close>, whose dependency array names the resource by
  the name the deletion below is called with.
\<close>

definition opsWorld :: world where
  "opsWorld =
     projectWorld\<lparr>files := projectFiles
       @ [(''/p/.lcagents/core/.bmad/agents/ops.md'',
           File (Text ''dependencies: {templates: [../../../custom/templates/memo.md]}''))]\<rparr>"

definition updatingOptions :: DeleteOptions where
  "updatingOptions = \<lparr>force = Some True, updateDeps = Some True, skipBackup = None\<rparr>"

text \<open>
  The project with one more agent, \<^verbatim>\<open>qa\<close>, whose file declares the core template \<^verbatim>\<open>prd.md\<close>,
  which the metadata of \<^verbatim>\<open>epic.md\<close> lists as well.
\<close>

definition qaWorld :: world where
  "qaWorld =
     projectWorld\<lparr>files := projectFiles
       @ [(''/p/.lcagents/core/.bmad/agents/qa.md'',
           File (Text ''dependencies: {templates: [prd.md]}''))]\<rparr>"

text \<open>
  The project with a custom template that is a directory of two files. The removal of the
  directory is rejected after the first of them was removed.
\<close>

definition packName :: string where
  "packName = ''../../../custom/templates/pack''"

definition packPath :: string where
  "packPath = ''/p/.lcagents/custom/templates/pack''"

definition packBackup :: string where
  "packBackup = ''../custom/templates/pack-2026-01-01T00-00-00-000Z''"

definition removedPaths :: "string list \<Rightarrow> string \<Rightarrow> bool" where
  "removedPaths ps q = (q \<in> set ps)"

definition packWorld :: world where
  "packWorld =
     projectWorld\<lparr>files := projectFiles
         @ [(packPath, Dir),
            (packPath @ ''/a.md'', File (Text ''pack a'')),
            (packPath @ ''/b.md'', File (Text ''pack b''))],
       ioFails := failsOn [Remove packPath],
       removedOnReject := removedPaths [packPath @ ''/a.md'']\<rparr>"

text \<open>
  The project with a custom template whose base name is \<^verbatim>\<open>metadata.json\<close>, the name of the
  file \<open>createBackup\<close> writes beside the copy. The removal of the template is rejected.
\<close>

definition clashName :: string where
  "clashName = ''../../../custom/templates/metadata.json''"

definition clashPath :: string where
  "clashPath = ''/p/.lcagents/custom/templates/metadata.json''"

definition clashBackup :: string where
  "clashBackup = ''../custom/templates/metadata.json-2026-01-01T00-00-00-000Z''"

definition clashWorld :: world where
  "clashWorld =
     projectWorld\<lparr>files := projectFiles @ [(clashPath, File (Text ''custom settings''))],
       ioFails := failsOn [Remove clashPath]\<rparr>"

section \<open>Paths\<close>

lemma split_slash_nonempty: "split_slash s \<noteq> []"
  by (induction s) (auto split: list.splits)

lemma split_slash_append: "split_slash (a @ CHR ''/'' # b) = split_slash a @ split_slash b"
proof (induction a)
  case Nil
  then show ?case by simp
next
  case (Cons c a)
  then show ?case
    using split_slash_nonempty [of a] by (cases "split_slash a") auto
qed

lemma split_slash_no_slash: "CHR ''/'' \<notin> set s \<Longrightarrow> split_slash s = [s]"
  by (induction s) auto

lemma split_slash_join:
  "ps \<noteq> [] \<Longrightarrow> \<forall>s \<in> set ps. CHR ''/'' \<notin> set s \<Longrightarrow> split_slash (join_slash ps) = ps"
proof (induction ps rule: join_slash.induct)
  case 1
  then show ?case by simp
next
  case (2 s)
  then show ?case by (simp add: split_slash_no_slash)
next
  case (3 s t ts)
  then show ?case by (simp add: split_slash_append split_slash_no_slash)
qed

lemma normalizeString_append:
  "normalizeString a res (xs @ ys) = normalizeString a (normalizeString a res xs) ys"
  by (induction xs arbitrary: res) auto

lemma normalizeString_plain:
  "\<forall>s \<in> set ps. plainSegment s \<Longrightarrow> normalizeString a res ps = res @ ps"
  by (induction ps arbitrary: res) (auto simp: plainSegment_def)

lemma join_slash_append:
  "xs \<noteq> [] \<Longrightarrow> ys \<noteq> [] \<Longrightarrow> join_slash (xs @ ys) = join_slash xs @ CHR ''/'' # join_slash ys"
proof (induction xs rule: join_slash.induct)
  case 1
  then show ?case by simp
next
  case (2 s)
  then show ?case by (cases ys) auto
next
  case (3 s t ts)
  then show ?case by simp
qed

lemma join_slash_plain_nonempty:
  "ps \<noteq> [] \<Longrightarrow> \<forall>s \<in> set ps. plainSegment s \<Longrightarrow> join_slash ps \<noteq> []"
  by (cases ps rule: join_slash.cases) (auto simp: plainSegment_def)

lemma plainSegment_hd: "plainSegment s \<Longrightarrow> hd (s @ t) \<noteq> CHR ''/''"
  by (cases s) (auto simp: plainSegment_def)

lemma join_slash_plain_hd:
  "ps \<noteq> [] \<Longrightarrow> \<forall>s \<in> set ps. plainSegment s \<Longrightarrow> hd (join_slash ps) \<noteq> CHR ''/''"
proof (cases ps rule: join_slash.cases)
  case 1
  assume "ps \<noteq> []"
  with 1 show ?thesis by simp
next
  case (2 s)
  assume "\<forall>s \<in> set ps. plainSegment s"
  with 2 show ?thesis using plainSegment_hd [of s "[]"] by simp
next
  case (3 s t ts)
  assume "\<forall>s \<in> set ps. plainSegment s"
  with 3 show ?thesis using plainSegment_hd [of s] by simp
qed

lemma join_slash_plain_last:
  "ps \<noteq> [] \<Longrightarrow> \<forall>s \<in> set ps. plainSegment s \<Longrightarrow> last (join_slash ps) \<noteq> CHR ''/''"
proof (induction ps rule: join_slash.induct)
  case 1
  then show ?case by simp
next
  case (2 s)
  then have "s \<noteq> []" and "CHR ''/'' \<notin> set s" by (auto simp: plainSegment_def)
  moreover from \<open>s \<noteq> []\<close> have "last s \<in> set s" by simp
  ultimately show ?case by (auto simp del: last_in_set)
next
  case (3 s t ts)
  then have "join_slash (t # ts) \<noteq> []" by (intro join_slash_plain_nonempty) auto
  with 3 show ?case by simp
qed

lemma normPrefix_last: "normPrefix b = [] \<or> last (normPrefix b) = CHR ''/''"
  by (simp add: normPrefix_def Let_def)

lemma path_normalize_plain:
  assumes "ps \<noteq> []" and "\<forall>s \<in> set ps. plainSegment s"
  shows "path_normalize (join_slash ps) = join_slash ps"
proof -
  have ne: "join_slash ps \<noteq> []" using assms by (rule join_slash_plain_nonempty)
  have sp: "split_slash (join_slash ps) = ps"
    using assms by (intro split_slash_join) (auto simp: plainSegment_def)
  show ?thesis
    using ne join_slash_plain_hd [OF assms] join_slash_plain_last [OF assms]
    by (simp add: path_normalize_def sp normalizeString_plain [OF assms(2)] Let_def)
qed

lemma path_normalize_plain_tail:
  assumes "ps \<noteq> []" and "\<forall>s \<in> set ps. plainSegment s"
  shows "path_normalize (b @ CHR ''/'' # join_slash ps) = normPrefix b @ join_slash ps"
proof -
  let ?s = "b @ CHR ''/'' # join_slash ps"
  let ?abs = "hd (b @ ''/'') = CHR ''/''"
  let ?N = "normalizeString (\<not> ?abs) [] (split_slash b)"
  have hd_eq: "hd ?s = hd (b @ ''/'')" by (cases b) auto
  have ne: "join_slash ps \<noteq> []" using assms by (rule join_slash_plain_nonempty)
  have sp: "split_slash ?s = split_slash b @ ps"
    using assms by (simp add: split_slash_append split_slash_join plainSegment_def)
  have ns: "normalizeString (\<not> ?abs) [] (split_slash ?s) = ?N @ ps"
    by (simp only: sp normalizeString_append normalizeString_plain [OF assms(2)])
  have lst: "last ?s \<noteq> CHR ''/''"
    using ne join_slash_plain_last [OF assms] by simp
  have jn: "join_slash (?N @ ps) \<noteq> []"
  proof (cases "?N = []")
    case True
    then show ?thesis using ne by simp
  next
    case False
    then show ?thesis using assms(1) by (simp add: join_slash_append)
  qed
  have eq: "path_normalize ?s = (if ?abs then ''/'' else []) @ join_slash (?N @ ps)"
    using lst jn by (simp add: path_normalize_def hd_eq ns Let_def del: hd_append2 hd_append)
  show ?thesis
  proof (cases "?N = []")
    case True
    then show ?thesis by (simp add: eq normPrefix_def Let_def)
  next
    case False
    then have "join_slash (?N @ ps) = (join_slash ?N @ ''/'') @ join_slash ps"
      using assms(1) by (simp add: join_slash_append)
    then show ?thesis using False by (simp add: eq normPrefix_def Let_def)
  qed
qed

lemma filter_plain: "\<forall>s \<in> set ps. plainSegment s \<Longrightarrow> filter (\<lambda>a. a \<noteq> []) ps = ps"
  by (auto simp: plainSegment_def filter_id_conv)

text \<open>
  Joining a path that ends in a plain segment with further plain segments keeps all of
  them, behind a prefix that depends on the part before them only.
\<close>

lemma path_join_segments:
  assumes "\<forall>s \<in> set (q # ps). plainSegment s" and "pre = [] \<or> last pre = CHR ''/''"
  shows "path_join ((pre @ q) # ps) = joinPrefix pre @ join_slash (q # ps)"
proof (cases "pre = []")
  case True
  have q: "q \<noteq> []" using assms(1) by (simp add: plainSegment_def)
  have "filter (\<lambda>a. a \<noteq> []) (q # ps) = q # ps"
    using assms(1) by (rule filter_plain)
  moreover have "join_slash (q # ps) \<noteq> []"
    using assms(1) by (intro join_slash_plain_nonempty) auto
  ultimately have "path_join (q # ps) = path_normalize (join_slash (q # ps))"
    by (simp add: path_join_def Let_def del: filter.simps join_slash.simps)
  then show ?thesis
    using path_normalize_plain [of "q # ps"] assms(1) by (simp add: True joinPrefix_def)
next
  case False
  then obtain b y where "pre = b @ [y]" by (cases pre rule: rev_cases) auto
  with assms(2) have b: "pre = b @ ''/''" by auto
  have f: "filter (\<lambda>a. a \<noteq> []) ps = ps"
    using assms(1) by (intro filter_plain) auto
  have j: "join_slash (filter (\<lambda>a. a \<noteq> []) ((pre @ q) # ps)) = b @ CHR ''/'' # join_slash (q # ps)"
    using f by (cases ps) (simp_all add: b)
  have "path_join ((pre @ q) # ps) = path_normalize (b @ CHR ''/'' # join_slash (q # ps))"
    unfolding path_join_def j by (simp add: Let_def)
  also have "\<dots> = normPrefix b @ join_slash (q # ps)"
    using assms(1) by (intro path_normalize_plain_tail) auto
  finally show ?thesis by (simp add: joinPrefix_def b)
qed

text \<open>A plain segment joined behind a path that ends in a plain segment is appended to it.\<close>

lemma path_join_snoc_plain:
  assumes q: "plainSegment q" and n: "plainSegment n"
  shows "path_join (xs @ [q, n]) = path_join (xs @ [q]) @ ''/'' @ n"
proof -
  let ?ys = "filter (\<lambda>a. a \<noteq> []) xs"
  have f2: "filter (\<lambda>a. a \<noteq> []) (xs @ [q, n]) = ?ys @ [q, n]"
    and f1: "filter (\<lambda>a. a \<noteq> []) (xs @ [q]) = ?ys @ [q]"
    using q n by (simp_all add: plainSegment_def)
  have p2: "\<forall>s \<in> set [q, n]. plainSegment s" and p1: "\<forall>s \<in> set [q]. plainSegment s"
    using q n by simp_all
  show ?thesis
  proof (cases "?ys = []")
    case True
    have "path_join (xs @ [q, n]) = path_normalize (join_slash [q, n])"
      unfolding path_join_def f2 True by (simp add: Let_def)
    also have "\<dots> = join_slash [q, n]"
      using p2 by (intro path_normalize_plain) auto
    finally have a: "path_join (xs @ [q, n]) = join_slash [q, n]" .
    have "path_join (xs @ [q]) = path_normalize (join_slash [q])"
      unfolding path_join_def f1 True using q by (simp add: Let_def plainSegment_def)
    also have "\<dots> = join_slash [q]"
      using p1 by (intro path_normalize_plain) auto
    finally have b: "path_join (xs @ [q]) = join_slash [q]" .
    show ?thesis unfolding a b by simp
  next
    case False
    let ?b = "join_slash ?ys"
    have j2: "join_slash (?ys @ [q, n]) = ?b @ CHR ''/'' # join_slash [q, n]"
      using False by (intro join_slash_append) auto
    have j1: "join_slash (?ys @ [q]) = ?b @ CHR ''/'' # join_slash [q]"
      using False by (intro join_slash_append) auto
    have "path_join (xs @ [q, n]) = path_normalize (?b @ CHR ''/'' # join_slash [q, n])"
      unfolding path_join_def f2 j2 by (simp add: Let_def)
    also have "\<dots> = normPrefix ?b @ join_slash [q, n]"
      using p2 by (intro path_normalize_plain_tail) auto
    finally have a: "path_join (xs @ [q, n]) = normPrefix ?b @ join_slash [q, n]" .
    have "path_join (xs @ [q]) = path_normalize (?b @ CHR ''/'' # join_slash [q])"
      unfolding path_join_def f1 j1 by (simp add: Let_def)
    also have "\<dots> = normPrefix ?b @ join_slash [q]"
      using p1 by (intro path_normalize_plain_tail) auto
    finally have b: "path_join (xs @ [q]) = normPrefix ?b @ join_slash [q]" .
    show ?thesis unfolding a b by simp
  qed
qed

lemma lcagentsPath_eq: "lcagentsPath basePath = lcagentsPrefix basePath @ ''.lcagents''"
proof (cases "basePath = []")
  case True
  then show ?thesis
    by (simp add: lcagentsPath_def lcagentsPrefix_def path_join_def path_normalize_def)
next
  case False
  have pl: "\<forall>s \<in> set [''.lcagents'']. plainSegment s" by (simp add: plainSegment_def)
  have "path_join [basePath, ''.lcagents''] = path_normalize (basePath @ CHR ''/'' # join_slash [''.lcagents''])"
    using False by (simp add: path_join_def)
  also have "\<dots> = normPrefix basePath @ join_slash [''.lcagents'']"
    using pl by (intro path_normalize_plain_tail) auto
  finally show ?thesis using False by (simp add: lcagentsPath_def lcagentsPrefix_def)
qed

lemma lcagentsPrefix_last: "lcagentsPrefix basePath = [] \<or> last (lcagentsPrefix basePath) = CHR ''/''"
  using normPrefix_last [of basePath] by (simp add: lcagentsPrefix_def)

lemma path_join_lcagents:
  assumes "\<forall>s \<in> set ps. plainSegment s"
  shows "path_join (lcagentsPath basePath # ps) =
           joinPrefix (lcagentsPrefix basePath) @ join_slash (''.lcagents'' # ps)"
proof -
  have "\<forall>s \<in> set (''.lcagents'' # ps). plainSegment s"
    using assms by (simp add: plainSegment_def)
  then show ?thesis
    unfolding lcagentsPath_eq using lcagentsPrefix_last by (rule path_join_segments)
qed

lemma str_includes_iff: "str_includes s sub \<longleftrightarrow> (\<exists>a c. s = a @ sub @ c)"
proof (induction s)
  case Nil
  then show ?case by auto
next
  case (Cons x s)
  show ?case
  proof
    assume "str_includes (x # s) sub"
    then consider "prefix sub (x # s)" | "str_includes s sub" by auto
    then show "\<exists>a c. x # s = a @ sub @ c"
    proof cases
      case 1
      then obtain c where c: "x # s = sub @ c" by (auto simp: prefix_def)
      show ?thesis
      proof (intro exI)
        show "x # s = [] @ sub @ c" using c by simp
      qed
    next
      case 2
      then obtain a c where "s = a @ sub @ c" using Cons.IH by auto
      then have "x # s = (x # a) @ sub @ c" by simp
      then show ?thesis by (intro exI)
    qed
  next
    assume "\<exists>a c. x # s = a @ sub @ c"
    then obtain a c where ac: "x # s = a @ sub @ c" by auto
    show "str_includes (x # s) sub"
    proof (cases a)
      case Nil
      then have "prefix sub (x # s)" using ac by (simp add: prefix_def)
      then show ?thesis by simp
    next
      case (Cons y a')
      then have "s = a' @ sub @ c" using ac by simp
      then show ?thesis using Cons.IH by auto
    qed
  qed
qed

section \<open>Layer resolution\<close>

text \<open>
  C7. With no active core system configured (\<^verbatim>\<open>getActiveCoreSystem()\<close> gives nothing, or the
  empty string), \<open>listAgents\<close> returns the empty sequence and \<open>resolveAgent\<close> returns, for
  every agent id and every core-system argument, the unresolved value: empty \<open>coreSystem\<close>,
  \<open>corePath\<close> and \<open>finalPath\<close>, and no layer sources. Both are plain values, not errors.
\<close>

theorem no_active_core_sentinel:
  assumes "falsy (activeCoreSystem w)"
  shows "listAgents basePath w = []
       \<and> resolveAgent basePath w x cs =
           \<lparr>arp_agentId = x, arp_coreSystem = [], arp_corePath = [], arp_finalPath = [],
            arp_layerSources = []\<rparr>"
  using assms by (simp add: listAgents_def resolveAgent_def)

theorem no_active_core_sentinel_witness:
  "falsy (activeCoreSystem noCoreWorld)
   \<and> listAgents ''/p'' noCoreWorld = []
   \<and> resolveAgent ''/p'' noCoreWorld ''x'' (Some ''bmad-core'') =
        \<lparr>arp_agentId = ''x'', arp_coreSystem = [], arp_corePath = [], arp_finalPath = [],
         arp_layerSources = []\<rparr>"
proof -
  have h: "falsy (activeCoreSystem noCoreWorld)"
    by (simp add: falsy_def noCoreWorld_def)
  show ?thesis
    using h no_active_core_sentinel [OF h, of "''/p''" "''x''" "Some ''bmad-core''"] by simp
qed

lemma templatePath_plain:
  assumes "plainSegment n"
  shows "templatePath basePath ac layer n = templatesDir basePath ac layer @ ''/'' @ n"
proof -
  have t: "plainSegment ''templates''" by (simp add: plainSegment_def)
  show ?thesis
  proof (cases "layer = Core")
    case True
    then show ?thesis
      using path_join_snoc_plain [OF t assms, of "[lcagentsPath basePath, layerDir layer, ''.'' @ ac]"]
      by (simp add: templatePath_def templatesDir_def)
  next
    case False
    then show ?thesis
      using path_join_snoc_plain [OF t assms, of "[lcagentsPath basePath, layerDir layer]"]
      by (simp add: templatePath_def templatesDir_def)
  qed
qed

text \<open>
  C6, as stated, fails in two ways. Where no core system is active, \<open>resolveTemplate\<close> raises
  before it looks at any layer, also for a template that the custom layer has. And a
  template name is joined into the path unchecked: for a name that climbs out of the
  custom layer's templates, \<open>resolveTemplate\<close> returns the core layer's file tagged as the
  custom layer's copy, in a project that has no custom layer at all.
\<close>

theorem resolveTemplate_precedence_counterexample:
  "pathExists (files noCoreWorld) ''/p/.lcagents/custom/templates/story.md''
   \<and> templatePath ''/p'' ''bmad'' Custom ''story.md'' = ''/p/.lcagents/custom/templates/story.md''
   \<and> resolveTemplate ''/p'' noCoreWorld ''story.md'' = Inl (Error ''No active core system found'')
   \<and> \<not> pathExists (files layeredWorld) ''/p/.lcagents/custom''
   \<and> templatesDir ''/p'' ''bmad'' Core = ''/p/.lcagents/core/.bmad/templates''
   \<and> resolveTemplate ''/p'' layeredWorld ''../../core/.bmad/templates/story.md''
       = Inr \<lparr>rws_name = ''../../core/.bmad/templates/story.md'',
              rws_path = ''/p/.lcagents/core/.bmad/templates/story.md'',
              rws_source = Custom\<rparr>"
  by code_simp

text \<open>
  C6, amended. With no active core system, \<open>resolveTemplate\<close> fails with the error of
  that, whatever the name and the layers. With an active core system and a template
  name that is a plain segment, it looks for the file of that name in the templates
  directory of the custom, the org and the core layer, in that order, and returns the
  first that exists, tagged with its layer; a template in no layer fails with the
  not-found error.
\<close>

theorem resolveTemplate_precedence:
  "(falsy (activeCoreSystem w)
      \<longrightarrow> resolveTemplate basePath w n = Inl (Error ''No active core system found''))
   \<and> (activeCoreSystem w = Some ac \<and> ac \<noteq> [] \<and> plainSegment n
      \<longrightarrow> resolveTemplate basePath w n =
           (if pathExists (files w) (templatesDir basePath ac Custom @ ''/'' @ n)
            then Inr \<lparr>rws_name = n, rws_path = templatesDir basePath ac Custom @ ''/'' @ n,
                      rws_source = Custom\<rparr>
            else if pathExists (files w) (templatesDir basePath ac Org @ ''/'' @ n)
            then Inr \<lparr>rws_name = n, rws_path = templatesDir basePath ac Org @ ''/'' @ n,
                      rws_source = Org\<rparr>
            else if pathExists (files w) (templatesDir basePath ac Core @ ''/'' @ n)
            then Inr \<lparr>rws_name = n, rws_path = templatesDir basePath ac Core @ ''/'' @ n,
                      rws_source = Core\<rparr>
            else Inl (Error (''Template '' @ n @ '' not found in any layer''))))"
proof (intro conjI impI)
  assume "falsy (activeCoreSystem w)"
  then show "resolveTemplate basePath w n = Inl (Error ''No active core system found'')"
    by (simp add: resolveTemplate_def)
next
  assume a: "activeCoreSystem w = Some ac \<and> ac \<noteq> [] \<and> plainSegment n"
  then have p: "\<And>layer. templatePath basePath ac layer n = templatesDir basePath ac layer @ ''/'' @ n"
    by (simp add: templatePath_plain)
  from a show "resolveTemplate basePath w n =
           (if pathExists (files w) (templatesDir basePath ac Custom @ ''/'' @ n)
            then Inr \<lparr>rws_name = n, rws_path = templatesDir basePath ac Custom @ ''/'' @ n,
                      rws_source = Custom\<rparr>
            else if pathExists (files w) (templatesDir basePath ac Org @ ''/'' @ n)
            then Inr \<lparr>rws_name = n, rws_path = templatesDir basePath ac Org @ ''/'' @ n,
                      rws_source = Org\<rparr>
            else if pathExists (files w) (templatesDir basePath ac Core @ ''/'' @ n)
            then Inr \<lparr>rws_name = n, rws_path = templatesDir basePath ac Core @ ''/'' @ n,
                      rws_source = Core\<rparr>
            else Inl (Error (''Template '' @ n @ '' not found in any layer'')))"
    by (simp add: resolveTemplate_def falsy_def js_or_def p)
qed

theorem resolveTemplate_precedence_witness:
  "falsy (activeCoreSystem noCoreWorld)
   \<and> resolveTemplate ''/p'' noCoreWorld ''story.md'' = Inl (Error ''No active core system found'')
   \<and> activeCoreSystem layeredWorld = Some ''bmad'' \<and> ''bmad'' \<noteq> [] \<and> plainSegment ''story.md''
   \<and> \<not> pathExists (files layeredWorld) (templatesDir ''/p'' ''bmad'' Custom @ ''/'' @ ''story.md'')
   \<and> pathExists (files layeredWorld) (templatesDir ''/p'' ''bmad'' Core @ ''/'' @ ''story.md'')
   \<and> resolveTemplate ''/p'' layeredWorld ''story.md'' =
        Inr \<lparr>rws_name = ''story.md'', rws_path = ''/p/.lcagents/org/templates/story.md'',
             rws_source = Org\<rparr>"
proof -
  have f: "falsy (activeCoreSystem noCoreWorld)"
    by (simp add: falsy_def noCoreWorld_def)
  have a: "activeCoreSystem layeredWorld = Some ''bmad'' \<and> ''bmad'' \<noteq> [] \<and> plainSegment ''story.md''"
    by (simp add: layeredWorld_def plainSegment_def)
  have p: "templatesDir ''/p'' ''bmad'' Custom = ''/p/.lcagents/custom/templates''"
    "templatesDir ''/p'' ''bmad'' Org = ''/p/.lcagents/org/templates''"
    "templatesDir ''/p'' ''bmad'' Core = ''/p/.lcagents/core/.bmad/templates''"
    by (simp_all add: templatesDir_def lcagentsPath_def path_join_def path_normalize_def layerDir_def)
  have e: "\<not> pathExists (files layeredWorld) ''/p/.lcagents/custom/templates/story.md''"
    "pathExists (files layeredWorld) ''/p/.lcagents/org/templates/story.md''"
    "pathExists (files layeredWorld) ''/p/.lcagents/core/.bmad/templates/story.md''"
    by (simp_all add: pathExists_def layeredWorld_def)
  show ?thesis
    using f a e
      resolveTemplate_precedence [of noCoreWorld "''/p''" "''story.md''" "''bmad''"]
      resolveTemplate_precedence [of layeredWorld "''/p''" "''story.md''" "''bmad''"]
    by (simp add: p)
qed

section \<open>Core immutability\<close>

lemma prefix_includes: "prefix (a @ sub) p \<Longrightarrow> str_includes p sub"
  by (auto simp: str_includes_iff prefix_def)

lemma under_core_isCore:
  assumes "prefix (path_join [lcagentsPath basePath, ''core''] @ ''/'') p"
  shows "isCoreResource p"
proof -
  have "path_join [lcagentsPath basePath, ''core''] =
          joinPrefix (lcagentsPrefix basePath) @ join_slash [''.lcagents'', ''core'']"
    by (rule path_join_lcagents) (simp add: plainSegment_def)
  then have "path_join [lcagentsPath basePath, ''core''] @ ''/'' =
          joinPrefix (lcagentsPrefix basePath) @ ''.lcagents/core/''"
    by simp
  with assms show ?thesis unfolding isCoreResource_def by (simp only: prefix_includes)
qed

lemma core_resource_path:
  assumes "plainSegment (''.'' @ ac)" and "plainSegment resourceType" and "plainSegment resourceName"
  shows "path_join [lcagentsPath basePath, ''core'', ''.'' @ ac, resourceType, resourceName] =
           path_join [lcagentsPath basePath, ''core'', ''.'' @ ac] @ ''/'' @ resourceType @ ''/'' @ resourceName"
    and "prefix (path_join [lcagentsPath basePath, ''core''] @ ''/'')
           (path_join [lcagentsPath basePath, ''core'', ''.'' @ ac, resourceType, resourceName])"
proof -
  have c: "plainSegment ''core''" by (simp add: plainSegment_def)
  have 1: "path_join [lcagentsPath basePath, ''core'', ''.'' @ ac, resourceType, resourceName] =
        joinPrefix (lcagentsPrefix basePath)
          @ join_slash [''.lcagents'', ''core'', ''.'' @ ac, resourceType, resourceName]"
    using assms c by (intro path_join_lcagents) simp
  have 2: "path_join [lcagentsPath basePath, ''core'', ''.'' @ ac] =
        joinPrefix (lcagentsPrefix basePath) @ join_slash [''.lcagents'', ''core'', ''.'' @ ac]"
    using assms c by (intro path_join_lcagents) simp
  have 3: "path_join [lcagentsPath basePath, ''core''] =
        joinPrefix (lcagentsPrefix basePath) @ join_slash [''.lcagents'', ''core'']"
    using c by (intro path_join_lcagents) simp
  show "path_join [lcagentsPath basePath, ''core'', ''.'' @ ac, resourceType, resourceName] =
           path_join [lcagentsPath basePath, ''core'', ''.'' @ ac] @ ''/'' @ resourceType @ ''/'' @ resourceName"
    unfolding 1 2 by simp
  show "prefix (path_join [lcagentsPath basePath, ''core''] @ ''/'')
           (path_join [lcagentsPath basePath, ''core'', ''.'' @ ac, resourceType, resourceName])"
    unfolding 1 3 by simp
qed

lemma getResourcePath_Some:
  assumes "getResourcePath basePath w resourceType resourceName = Some p"
  shows "\<exists>ac. activeCoreSystem w = Some ac \<and> ac \<noteq> []
            \<and> p = path_join [lcagentsPath basePath, ''core'', ''.'' @ ac, resourceType, resourceName]
            \<and> pathExists (files w) p"
  using assms
  by (cases "activeCoreSystem w")
     (auto simp: getResourcePath_def falsy_def js_or_def Let_def split: if_splits)

lemma checkDependencies_isCore:
  assumes "getResourcePath basePath w resourceType resourceName = Some p"
  shows "\<exists>r. checkDependencies basePath w resourceName resourceType = Inr r \<and> isCore r = isCoreResource p"
  using assms by (simp add: checkDependencies_def Let_def)

text \<open>
  C1. A resource whose resolved path lies under the core-layer subtree cannot be deleted:
  for every choice of the options \<open>safeDelete\<close> fails with \<open>CoreResourceProtected\<close>, it
  leaves the world as it was, and it stops in the Check step.
\<close>

theorem core_resource_protected:
  assumes "getResourcePath basePath w resourceType resourceName = Some p"
    and "prefix (path_join [lcagentsPath basePath, ''core''] @ ''/'') p"
  shows "result (safeDelete basePath w resourceName resourceType options) = Inl CoreResourceProtected
       \<and> final (safeDelete basePath w resourceName resourceType options) = w
       \<and> steps (safeDelete basePath w resourceName resourceType options) = [Check]"
proof -
  have "isCoreResource p" using assms(2) by (rule under_core_isCore)
  with checkDependencies_isCore [OF assms(1)] obtain r where
    "checkDependencies basePath w resourceName resourceType = Inr r" and "isCore r" by auto
  then show ?thesis by (simp add: safeDelete_def)
qed

text \<open>Paths of the example project.\<close>

lemma project_paths:
  "lcagentsPath ''/p'' = ''/p/.lcagents''"
  "path_join [''/p/.lcagents'', ''core''] = ''/p/.lcagents/core''"
  "path_join [''/p/.lcagents'', ''core'', ''.bmad'', ''agents''] = ''/p/.lcagents/core/.bmad/agents''"
  "path_join [''/p/.lcagents'', ''core'', ''.bmad'', ''templates''] = ''/p/.lcagents/core/.bmad/templates''"
  "path_join [''/p/.lcagents'', ''org'', ''templates''] = ''/p/.lcagents/org/templates''"
  "path_join [''/p/.lcagents'', ''custom'', ''templates''] = ''/p/.lcagents/custom/templates''"
  "path_join [''/p/.lcagents'', ''core'', ''.bmad'', ''templates'', ''story.md''] = ''/p/.lcagents/core/.bmad/templates/story.md''"
  "path_join [''/p/.lcagents'', ''core'', ''.bmad'', ''templates'', ''note.md''] = ''/p/.lcagents/core/.bmad/templates/note.md''"
  "path_join [''/p/.lcagents'', ''core'', ''.bmad'', ''templates'', ''memo.md''] = ''/p/.lcagents/core/.bmad/templates/memo.md''"
  "path_join [''/p/.lcagents'', ''core'', ''.bmad'', ''templates'', ''prd.md''] = ''/p/.lcagents/core/.bmad/templates/prd.md''"
  "path_join [''/p/.lcagents'', ''core'', ''.bmad'', ''templates'', ''../../../custom/templates/memo.md'']
     = ''/p/.lcagents/custom/templates/memo.md''"
  "path_join [''/p/.lcagents'', ''core'', ''.bmad'', ''templates'', ''../../../custom/templates/note.md'']
     = ''/p/.lcagents/custom/templates/note.md''"
  by (simp_all add: lcagentsPath_def path_join_def path_normalize_def)

lemma project_getResourcePath:
  "getResourcePath ''/p'' projectWorld ''templates'' ''story.md'' = Some ''/p/.lcagents/core/.bmad/templates/story.md''"
  "getResourcePath ''/p'' projectWorld ''templates'' ''note.md'' = None"
  "getResourcePath ''/p'' projectWorld ''templates'' ''memo.md'' = None"
  "getResourcePath ''/p'' projectWorld ''templates'' ''prd.md'' = Some ''/p/.lcagents/core/.bmad/templates/prd.md''"
  "getResourcePath ''/p'' projectWorld ''templates'' ''../../../custom/templates/memo.md''
     = Some ''/p/.lcagents/custom/templates/memo.md''"
  "getResourcePath ''/p'' projectWorld ''templates'' ''../../../custom/templates/note.md''
     = Some ''/p/.lcagents/custom/templates/note.md''"
  by (simp_all add: getResourcePath_def projectWorld_def falsy_def js_or_def project_paths
        pathExists_def projectFiles_def)

theorem core_resource_protected_witness:
  "getResourcePath ''/p'' projectWorld ''templates'' ''story.md''
     = Some ''/p/.lcagents/core/.bmad/templates/story.md''
   \<and> prefix (path_join [lcagentsPath ''/p'', ''core''] @ ''/'') ''/p/.lcagents/core/.bmad/templates/story.md''
   \<and> result (safeDelete ''/p'' projectWorld ''story.md'' ''templates''
               \<lparr>force = Some True, updateDeps = Some True, skipBackup = Some True\<rparr>)
       = Inl CoreResourceProtected
   \<and> final (safeDelete ''/p'' projectWorld ''story.md'' ''templates''
               \<lparr>force = Some True, updateDeps = Some True, skipBackup = Some True\<rparr>) = projectWorld"
proof -
  have a: "getResourcePath ''/p'' projectWorld ''templates'' ''story.md''
     = Some ''/p/.lcagents/core/.bmad/templates/story.md''"
    by (rule project_getResourcePath)
  have b: "prefix (path_join [lcagentsPath ''/p'', ''core''] @ ''/'') ''/p/.lcagents/core/.bmad/templates/story.md''"
    by (simp add: project_paths)
  show ?thesis
    using a b core_resource_protected [OF a b] by simp
qed

lemma project_fields:
  "files projectWorld = projectFiles"
  "activeCoreSystem projectWorld = Some ''bmad''"
  "getResourceMetadata projectWorld = projectMetadata"
  "isoNow projectWorld = ''2026-01-01T00:00:00.000Z''"
  "ioFails projectWorld = neverFails"
  "removedOnReject projectWorld = nothingRemoved"
  "declaredDependencies projectWorld = projectDeclares"
  by (simp_all add: projectWorld_def)

lemma project_listing:
  "listAgents ''/p'' projectWorld = [''broken'', ''dev'']"
  "listResources ''/p'' projectWorld ''templates'' =
     [\<lparr>rws_name = ''story.md'', rws_path = ''/p/.lcagents/core/.bmad/templates/story.md'', rws_source = Core\<rparr>,
      \<lparr>rws_name = ''prd.md'', rws_path = ''/p/.lcagents/core/.bmad/templates/prd.md'', rws_source = Core\<rparr>,
      \<lparr>rws_name = ''epic.md'', rws_path = ''/p/.lcagents/core/.bmad/templates/epic.md'', rws_source = Core\<rparr>,
      \<lparr>rws_name = ''note.md'', rws_path = ''/p/.lcagents/custom/templates/note.md'', rws_source = Custom\<rparr>,
      \<lparr>rws_name = ''memo.md'', rws_path = ''/p/.lcagents/custom/templates/memo.md'', rws_source = Custom\<rparr>]"
  by (simp_all add: listAgents_def listResources_def layerListing_def projectWorld_def falsy_def js_or_def
        project_paths pathExists_def projectFiles_def readdir_def endsWith_def suffix_to_prefix
        path_join_def path_normalize_def)

lemma project_loadAgent:
  "loadAgent ''/p'' projectWorld ''broken'' =
     Inl (IOFailure (ReadFile ''/p/.lcagents/core/.bmad/agents/broken.md''))"
  "loadAgent ''/p'' projectWorld ''dev'' =
     Inr \<lparr>ag_name = ''dev'', ag_content = Text ''dependencies: {templates: [story.md, note.md]}'',
          ag_path = Some \<lparr>arp_agentId = ''dev'', arp_coreSystem = ''bmad'',
                           arp_corePath = ''/p/.lcagents/core/.bmad/agents/dev.md'',
                           arp_finalPath = ''/p/.lcagents/core/.bmad/agents/dev.md'',
                           arp_layerSources = [Core]\<rparr>,
          ag_dependencies = None, ag_definition = None\<rparr>"
  by (simp_all add: loadAgent_def resolveAgent_def projectWorld_def falsy_def js_or_def
        lcagentsPath_def pathExists_def projectFiles_def readFile_def
        path_join_def path_normalize_def Let_def)

section \<open>What getResourcePath resolves\<close>

text \<open>
  C10, as stated, fails for a resource name that climbs out of the core directory:
  \<^verbatim>\<open>path.join\<close> resolves the \<^verbatim>\<open>..\<close> segments, the path returned is the custom layer's
  file, and \<open>checkDependencies\<close> reports \<open>isCore = False\<close> for it.
\<close>

theorem getResourcePath_traversal_counterexample:
  "getResourcePath ''/p'' projectWorld ''templates'' ''../../../custom/templates/note.md''
     = Some ''/p/.lcagents/custom/templates/note.md''
   \<and> path_join [lcagentsPath ''/p'', ''core''] = ''/p/.lcagents/core''
   \<and> \<not> prefix ''/p/.lcagents/core/'' ''/p/.lcagents/custom/templates/note.md''
   \<and> checkDependencies ''/p'' projectWorld ''../../../custom/templates/note.md'' ''templates''
     = Inr \<lparr>hasActive = False, dependencies = [], isCore = False\<rparr>"
  by (simp add: project_getResourcePath project_paths checkDependencies_def project_listing
        project_loadAgent isCoreResource_def project_fields projectMetadata_def)

text \<open>
  C10, amended. When the resource type, the resource name and the directory name of the
  active core system are plain segments, every path \<open>getResourcePath\<close> returns is the
  file of that type and name below the core system's directory in the core layer, and
  \<open>checkDependencies\<close> reports \<open>isCore = True\<close> for the resource.
\<close>

theorem getResourcePath_core_only:
  assumes "activeCoreSystem w = Some ac" and "plainSegment (''.'' @ ac)"
    and "plainSegment resourceType" and "plainSegment resourceName"
    and "getResourcePath basePath w resourceType resourceName = Some p"
  shows "p = path_join [lcagentsPath basePath, ''core'', ''.'' @ ac] @ ''/'' @ resourceType @ ''/'' @ resourceName
       \<and> isCoreResource p
       \<and> (\<exists>r. checkDependencies basePath w resourceName resourceType = Inr r \<and> isCore r)"
proof -
  from getResourcePath_Some [OF assms(5)] assms(1)
  have p: "p = path_join [lcagentsPath basePath, ''core'', ''.'' @ ac, resourceType, resourceName]"
    by auto
  have u: "prefix (path_join [lcagentsPath basePath, ''core''] @ ''/'') p"
    unfolding p using assms(2-4) by (rule core_resource_path(2))
  have c: "isCoreResource p" using u by (rule under_core_isCore)
  show ?thesis
    using p core_resource_path(1) [OF assms(2-4), of basePath] c checkDependencies_isCore [OF assms(5)]
    by auto
qed

theorem getResourcePath_core_only_witness:
  "activeCoreSystem projectWorld = Some ''bmad'' \<and> plainSegment (''.'' @ ''bmad'')
   \<and> plainSegment ''templates'' \<and> plainSegment ''story.md''
   \<and> getResourcePath ''/p'' projectWorld ''templates'' ''story.md''
        = Some ''/p/.lcagents/core/.bmad/templates/story.md''
   \<and> isCoreResource ''/p/.lcagents/core/.bmad/templates/story.md''
   \<and> (\<exists>r. checkDependencies ''/p'' projectWorld ''story.md'' ''templates'' = Inr r \<and> isCore r)"
proof -
  have a: "activeCoreSystem projectWorld = Some ''bmad''" by (simp add: projectWorld_def)
  have b: "plainSegment (''.'' @ ''bmad'')" "plainSegment ''templates''" "plainSegment ''story.md''"
    by (simp_all add: plainSegment_def)
  have c: "getResourcePath ''/p'' projectWorld ''templates'' ''story.md''
        = Some ''/p/.lcagents/core/.bmad/templates/story.md''"
    by (rule project_getResourcePath)
  show ?thesis
    using a b c getResourcePath_core_only [OF a b c] by simp
qed

section \<open>Dependency checking\<close>

lemma scanAgents_eq:
  "scanAgents loader resourceName agents deps =
     deps @ List.map_filter (scannedEntry loader resourceName) agents"
proof (induction agents arbitrary: deps)
  case Nil
  then show ?case by (simp add: List.map_filter_simps)
next
  case (Cons a agents)
  show ?case
  proof (cases "loader a")
    case (Inl e)
    then show ?thesis by (simp add: Cons.IH List.map_filter_simps scannedEntry_def)
  next
    case (Inr agent)
    then show ?thesis
      by (cases "ag_dependencies agent"; cases "ag_path agent")
         (auto simp: Cons.IH List.map_filter_simps scannedEntry_def Let_def)
  qed
qed

lemma scanResources_eq:
  "scanResources metadataOf resourceName resources deps =
     deps @ List.map_filter (resourceEntry metadataOf resourceName) resources"
proof (induction resources arbitrary: deps)
  case Nil
  then show ?case by (simp add: List.map_filter_simps)
next
  case (Cons r resources)
  then show ?case
    by (auto simp: List.map_filter_simps resourceEntry_def split: option.splits)
qed

text \<open>
  The object \<open>loadAgent\<close> builds has the properties \<^verbatim>\<open>name\<close>, \<^verbatim>\<open>content\<close> and \<^verbatim>\<open>path\<close> only, so
  the loop over the agents records nothing: for a resource that \<open>getResourcePath\<close>
  resolves, \<open>checkDependencies\<close> returns the entries of the other resources of the type,
  in \<open>listResources\<close> order, and \<open>hasActive\<close> says whether there are any. Nor does
  \<open>updateDependencies\<close> ever write.
\<close>

lemma loadAgent_bare:
  "loadAgent basePath w agentName = Inr agent \<Longrightarrow> ag_dependencies agent = None \<and> ag_definition agent = None"
  by (auto simp: loadAgent_def Let_def split: if_splits sum.splits)

lemma scannedEntry_loadAgent: "scannedEntry (loadAgent basePath w) resourceName agentName = None"
  by (cases "loadAgent basePath w agentName") (auto simp: scannedEntry_def dest: loadAgent_bare)

lemma checkDependencies_resources_only:
  assumes "getResourcePath basePath w resourceType resourceName = Some p"
  shows "\<exists>r. checkDependencies basePath w resourceName resourceType = Inr r
           \<and> hasActive r = (dependencies r \<noteq> [])
           \<and> dependencies r =
               List.map_filter (resourceEntry (getResourceMetadata w resourceType) resourceName)
                 (listResources basePath w resourceType)"
  using assms
  by (simp add: checkDependencies_def Let_def scanAgents_eq scanResources_eq
        List.map_filter_def scannedEntry_loadAgent)

text \<open>
  C8 at a failing input. Agent \<^verbatim>\<open>qa\<close> declares the core template \<^verbatim>\<open>prd.md\<close>, and the metadata
  of \<^verbatim>\<open>epic.md\<close> lists it: its dependents are the agent, then the resource. The check
  returns the resource alone, without the agent-kind dependent that comes first. And for
  the custom template \<^verbatim>\<open>note.md\<close>, an existing resource, the check fails with the not-found
  error.
\<close>

theorem dependency_listing_failing_input:
  "listAgents ''/p'' qaWorld = [''broken'', ''dev'', ''qa'']
   \<and> map_of (files qaWorld) ''/p/.lcagents/core/.bmad/agents/qa.md''
       = Some (File (Text ''dependencies: {templates: [prd.md]}''))
   \<and> dependents ''/p'' qaWorld ''prd.md'' ''templates''
       = [\<lparr>dep_type = AgentDep, dep_name = ''qa'',
            dep_path = ''/p/.lcagents/core/.bmad/agents/qa.md''\<rparr>,
          \<lparr>dep_type = ResourceDep, dep_name = ''epic.md'',
            dep_path = ''/p/.lcagents/core/.bmad/templates/epic.md''\<rparr>]
   \<and> checkDependencies ''/p'' qaWorld ''prd.md'' ''templates''
       = Inr \<lparr>hasActive = True,
              dependencies = [\<lparr>dep_type = ResourceDep, dep_name = ''epic.md'',
                                dep_path = ''/p/.lcagents/core/.bmad/templates/epic.md''\<rparr>],
              isCore = True\<rparr>
   \<and> map_of (files qaWorld) ''/p/.lcagents/custom/templates/note.md''
       = Some (File (Text ''custom note''))
   \<and> checkDependencies ''/p'' qaWorld ''note.md'' ''templates''
       = Inl (Error ''Resource not found: note.md'')"
  by code_simp

lemma updateDependencies_world: "snd (updateDependencies basePath w resourceName deps) = w"
proof (induction deps)
  case Nil
  then show ?case by simp
next
  case (Cons dep deps)
  then show ?case
    by (cases "loadAgent basePath w (dep_name dep)") (auto dest: loadAgent_bare)
qed

text \<open>
  C2 at a failing input. Agent \<^verbatim>\<open>dev\<close> declares \<^verbatim>\<open>story.md\<close> (core) and \<^verbatim>\<open>note.md\<close> (custom).
  For \<^verbatim>\<open>story.md\<close> the check reports no dependents, and the deletion is refused as a core
  resource with or without \<open>force\<close>; for \<^verbatim>\<open>note.md\<close> the check and the deletion fail with
  the not-found error with or without \<open>force\<close>.
\<close>

theorem dependency_gating_failing_input:
  "checkDependencies ''/p'' projectWorld ''story.md'' ''templates''
     = Inr \<lparr>hasActive = False, dependencies = [], isCore = True\<rparr>
   \<and> result (safeDelete ''/p'' projectWorld ''story.md'' ''templates''
               \<lparr>force = Some False, updateDeps = None, skipBackup = None\<rparr>) = Inl CoreResourceProtected
   \<and> result (safeDelete ''/p'' projectWorld ''story.md'' ''templates''
               \<lparr>force = Some True, updateDeps = None, skipBackup = None\<rparr>) = Inl CoreResourceProtected
   \<and> checkDependencies ''/p'' projectWorld ''note.md'' ''templates''
     = Inl (Error ''Resource not found: note.md'')
   \<and> result (safeDelete ''/p'' projectWorld ''note.md'' ''templates''
               \<lparr>force = Some False, updateDeps = None, skipBackup = None\<rparr>)
     = Inl (Error ''Resource not found: note.md'')
   \<and> result (safeDelete ''/p'' projectWorld ''note.md'' ''templates''
               \<lparr>force = Some True, updateDeps = None, skipBackup = None\<rparr>)
     = Inl (Error ''Resource not found: note.md'')"
proof -
  have s: "checkDependencies ''/p'' projectWorld ''story.md'' ''templates''
     = Inr \<lparr>hasActive = False, dependencies = [], isCore = True\<rparr>"
    by (simp add: checkDependencies_def project_getResourcePath project_listing project_loadAgent
          project_fields projectMetadata_def isCoreResource_def)
  have n: "checkDependencies ''/p'' projectWorld ''note.md'' ''templates''
     = Inl (Error ''Resource not found: note.md'')"
    by (simp add: checkDependencies_def project_getResourcePath)
  show ?thesis by (simp add: s n safeDelete_def)
qed

text \<open>A deletion with \<^verbatim>\<open>updateDeps\<close> in the project with the agent \<^verbatim>\<open>ops\<close>.\<close>

lemma ops_run:
  "listAgents ''/p'' opsWorld = [''broken'', ''dev'', ''ops'']"
  "steps (safeDelete ''/p'' opsWorld memoName ''templates'' updatingOptions)
     = [Check, Gate, Backup, Mutate, PostUpdate]"
  "result (safeDelete ''/p'' opsWorld memoName ''templates'' updatingOptions) = Inr ()"
  "map_of (files (final (safeDelete ''/p'' opsWorld memoName ''templates'' updatingOptions)))
     ''/p/.lcagents/core/.bmad/agents/ops.md''
     = Some (File (Text ''dependencies: {templates: [../../../custom/templates/memo.md]}''))"
  by code_simp+

text \<open>
  C9 at a failing input. Agent \<^verbatim>\<open>ops\<close> names the resource in its dependency array. The
  deletion of the resource with \<open>force\<close> and \<open>updateDeps\<close> reaches the Post-update step and
  succeeds, and the agent's file still names the resource. Asked directly to drop
  \<^verbatim>\<open>story.md\<close> from its dependent agent \<^verbatim>\<open>dev\<close>, \<open>updateDependencies\<close> raises a \<open>TypeError\<close>
  and writes nothing.
\<close>

theorem update_dependencies_failing_input:
  "steps (safeDelete ''/p'' opsWorld memoName ''templates'' updatingOptions)
     = [Check, Gate, Backup, Mutate, PostUpdate]
   \<and> result (safeDelete ''/p'' opsWorld memoName ''templates'' updatingOptions) = Inr ()
   \<and> map_of (files (final (safeDelete ''/p'' opsWorld memoName ''templates'' updatingOptions)))
        ''/p/.lcagents/core/.bmad/agents/ops.md''
       = Some (File (Text ''dependencies: {templates: [../../../custom/templates/memo.md]}''))
   \<and> updateDependencies ''/p'' projectWorld ''story.md''
        [\<lparr>dep_type = AgentDep, dep_name = ''dev'', dep_path = ''/p/.lcagents/core/.bmad/agents/dev.md''\<rparr>]
       = (Inl (TypeError ''Cannot read properties of undefined (reading dependencies)''), projectWorld)
   \<and> map_of (files projectWorld) ''/p/.lcagents/core/.bmad/agents/dev.md''
       = Some (File (Text ''dependencies: {templates: [story.md, note.md]}''))"
  by (simp add: ops_run project_loadAgent project_fields projectFiles_def)

text \<open>
  C3 at a failing input. The custom template \<^verbatim>\<open>memo.md\<close> exists, is not a core resource
  and has no dependents; \<open>safeDelete\<close> with the backup not skipped fails in the Check
  step with the not-found error and creates no backup.
\<close>

theorem backup_roundtrip_failing_input:
  "map_of (files projectWorld) ''/p/.lcagents/custom/templates/memo.md'' = Some (File (Text ''custom memo''))
   \<and> dependents ''/p'' projectWorld ''memo.md'' ''templates'' = []
   \<and> safeDelete ''/p'' projectWorld ''memo.md'' ''templates''
        \<lparr>force = None, updateDeps = None, skipBackup = Some False\<rparr>
     = \<lparr>result = Inl (Error ''Resource not found: memo.md''), final = projectWorld, steps = [Check]\<rparr>"
  by (simp add: project_fields projectFiles_def dependents_def project_listing project_loadAgent
        List.map_filter_simps agentEntry_def projectDeclares_def resourceEntry_def projectMetadata_def
        safeDelete_def checkDependencies_def project_getResourcePath)

section \<open>The runs of safeDelete\<close>

lemma path_normalize_nonempty: "path_normalize p \<noteq> []"
  by (simp add: path_normalize_def Let_def)

lemma path_join_nonempty: "path_join args \<noteq> []"
  by (simp add: path_join_def Let_def path_normalize_nonempty)

lemma createBackup_path:
  "createBackup basePath w resourceName resourceType deps = (Inr backupPath, w1) \<Longrightarrow> backupPath \<noteq> []"
  by (auto simp: createBackup_def Let_def path_join_nonempty split: option.splits sum.splits)

lemma removeAndUpdate_steps:
  "steps (removeAndUpdate basePath w resourceName resourceType update deps) = [Mutate]
   \<or> steps (removeAndUpdate basePath w resourceName resourceType update deps) = [Mutate, PostUpdate]"
  by (auto simp: removeAndUpdate_def split: option.splits sum.splits prod.splits)

text \<open>The runs of \<open>safeDelete\<close>, one equation for each way through it.\<close>

lemma safeDelete_check_fails:
  "checkDependencies basePath w resourceName resourceType = Inl e \<Longrightarrow>
   safeDelete basePath w resourceName resourceType options = \<lparr>result = Inl e, final = w, steps = [Check]\<rparr>"
  by (simp add: safeDelete_def)

lemma safeDelete_core:
  "checkDependencies basePath w resourceName resourceType = Inr r \<Longrightarrow> isCore r \<Longrightarrow>
   safeDelete basePath w resourceName resourceType options =
     \<lparr>result = Inl CoreResourceProtected, final = w, steps = [Check]\<rparr>"
  by (simp add: safeDelete_def)

lemma safeDelete_gate:
  "checkDependencies basePath w resourceName resourceType = Inr r \<Longrightarrow> \<not> isCore r \<Longrightarrow>
   hasActive r \<Longrightarrow> \<not> optionSet (force options) \<Longrightarrow>
   safeDelete basePath w resourceName resourceType options =
     \<lparr>result = Inl (DependenciesExist (dependencies r)), final = w, steps = [Check, Gate]\<rparr>"
  by (simp add: safeDelete_def)

lemma safeDelete_backup_fails:
  "checkDependencies basePath w resourceName resourceType = Inr r \<Longrightarrow> \<not> isCore r \<Longrightarrow>
   \<not> (hasActive r \<and> \<not> optionSet (force options)) \<Longrightarrow> \<not> optionSet (skipBackup options) \<Longrightarrow>
   createBackup basePath w resourceName resourceType (dependencies r) = (Inl e, w1) \<Longrightarrow>
   safeDelete basePath w resourceName resourceType options =
     \<lparr>result = Inl e, final = w1, steps = [Check, Gate, Backup]\<rparr>"
  by (simp add: safeDelete_def)

lemma safeDelete_unprotected:
  "checkDependencies basePath w resourceName resourceType = Inr r \<Longrightarrow> \<not> isCore r \<Longrightarrow>
   \<not> (hasActive r \<and> \<not> optionSet (force options)) \<Longrightarrow> optionSet (skipBackup options) \<Longrightarrow>
   safeDelete basePath w resourceName resourceType options =
     (let body = removeAndUpdate basePath w resourceName resourceType
                   (optionSet (updateDeps options)) (dependencies r)
      in \<lparr>result = result body, final = final body, steps = [Check, Gate] @ steps body\<rparr>)"
  by (auto simp: safeDelete_def Let_def falsy_def split: sum.splits)

lemma safeDelete_backed_up:
  "checkDependencies basePath w resourceName resourceType = Inr r \<Longrightarrow> \<not> isCore r \<Longrightarrow>
   \<not> (hasActive r \<and> \<not> optionSet (force options)) \<Longrightarrow> \<not> optionSet (skipBackup options) \<Longrightarrow>
   createBackup basePath w resourceName resourceType (dependencies r) = (Inr backupPath, w1) \<Longrightarrow>
   safeDelete basePath w resourceName resourceType options =
     (let body = removeAndUpdate basePath w1 resourceName resourceType
                   (optionSet (updateDeps options)) (dependencies r)
      in case result body of
           Inr u \<Rightarrow> \<lparr>result = Inr (), final = final body, steps = [Check, Gate, Backup] @ steps body\<rparr>
         | Inl err \<Rightarrow>
             (case restoreBackup backupPath (final body) of
                Inl e2 \<Rightarrow> \<lparr>result = Inl e2, final = final body,
                           steps = [Check, Gate, Backup] @ steps body @ [Rollback]\<rparr>
              | Inr w3 \<Rightarrow> \<lparr>result = Inl err, final = w3,
                           steps = [Check, Gate, Backup] @ steps body @ [Rollback]\<rparr>))"
  by (frule createBackup_path)
     (auto simp: safeDelete_def Let_def falsy_def js_or_def split: sum.splits)

section \<open>Backup, rollback and the files of a resource\<close>

lemma under_decompose: "under a x \<Longrightarrow> x = a @ drop (length a) x"
  by (auto simp: under_def prefix_def)

lemma under_rebase: "under a x \<Longrightarrow> under b (b @ drop (length a) x)"
  by (auto simp: under_def prefix_def)

lemma under_comparable:
  assumes "under a x" and "under b x"
  shows "under a b \<or> under b a"
proof -
  consider "x = a" | "x = b" | "prefix (a @ ''/'') x" "prefix (b @ ''/'') x"
    using assms by (auto simp: under_def)
  then show ?thesis
  proof cases
    case 1
    then show ?thesis using assms(2) by simp
  next
    case 2
    then show ?thesis using assms(1) by simp
  next
    case 3
    then have "prefix (a @ ''/'') (b @ ''/'') \<or> prefix (b @ ''/'') (a @ ''/'')"
      by (rule prefix_same_cases)
    then show ?thesis
      by (auto simp: under_def prefix_snoc)
  qed
qed

lemma map_of_mkdirs_fold:
  "map_of (fold (\<lambda>d acc. if pathExists acc d then acc else AList.update d Dir acc) ds fs) q =
     (case map_of fs q of
        Some n \<Rightarrow> Some n
      | None \<Rightarrow> if q \<in> set ds then Some Dir else None)"
proof (induction ds arbitrary: fs)
  case Nil
  then show ?case by (simp split: option.splits)
next
  case (Cons d ds)
  show ?case
  proof (cases "pathExists fs d")
    case True
    then have "map_of fs d \<noteq> None" by (simp add: pathExists_def)
    then show ?thesis using True by (auto simp: Cons.IH split: option.splits)
  next
    case False
    then have "map_of fs d = None" by (simp add: pathExists_def)
    then show ?thesis using False by (auto simp: Cons.IH update_conv' split: option.splits)
  qed
qed

lemma map_of_mkdirs:
  "map_of (mkdirs d fs) q =
     (case map_of fs q of
        Some n \<Rightarrow> Some n
      | None \<Rightarrow> if q \<in> set (dirChain d) then Some Dir else None)"
  unfolding mkdirs_def by (rule map_of_mkdirs_fold)

lemma map_of_copied:
  "map_of (copied src dst fs) q =
     (if under dst q then map_of fs (src @ drop (length dst) q) else None)"
proof (induction fs)
  case Nil
  then show ?case by (simp add: copied_def)
next
  case (Cons e fs)
  obtain k n where e: "e = (k, n)" by (cases e)
  have ih: "map_of (copied src dst fs) q =
     (if under dst q then map_of fs (src @ drop (length dst) q) else None)"
    using Cons.IH .
  have c: "copied src dst ((k, n) # fs) =
      (if under src k then (dst @ drop (length src) k, n) # copied src dst fs else copied src dst fs)"
    by (simp add: copied_def)
  show ?case
  proof (cases "under src k")
    case True
    show ?thesis
    proof (cases "under dst q")
      case uq: True
      show ?thesis
      proof (cases "k = src @ drop (length dst) q")
        case same: True
        then have "drop (length src) k = drop (length dst) q" by simp
        then have "dst @ drop (length src) k = q" using under_decompose [OF uq] by simp
        then show ?thesis using True uq same unfolding e c by simp
      next
        case differ: False
        have "dst @ drop (length src) k \<noteq> q"
        proof
          assume "dst @ drop (length src) k = q"
          then have "drop (length dst) q = drop (length src) k" by auto
          then have "k = src @ drop (length dst) q" using under_decompose [OF True] by simp
          with differ show False by simp
        qed
        then show ?thesis using True uq differ ih unfolding e c by auto
      qed
    next
      case nq: False
      have "dst @ drop (length src) k \<noteq> q"
        using under_rebase [OF True, of dst] nq by auto
      then show ?thesis using True nq ih unfolding e c by simp
    qed
  next
    case False
    show ?thesis
    proof (cases "under dst q")
      case uq: True
      have "k \<noteq> src @ drop (length dst) q"
        using under_rebase [OF uq, of src] False by auto
      then show ?thesis using False uq ih unfolding e c by auto
    next
      case nq: False
      then show ?thesis using False ih unfolding e c by simp
    qed
  qed
qed

lemma map_of_filter_key:
  "map_of (filter (\<lambda>(k, n). P k) fs) q = (if P q then map_of fs q else None)"
  by (induction fs) auto

lemma fresh_None:
  "list_all (\<lambda>(k, n). \<not> under b k) fs \<Longrightarrow> under b q \<Longrightarrow> map_of fs q = None"
  by (induction fs) (auto simp: list_all_iff)


text \<open>
  The files of a resource after its backup was written, the resource removed as a whole,
  in part or not at all, and the backup copied back: they are the files it had before.
\<close>

lemma restored_files:
  assumes apart: "backupApart fs0 p bp"
    and bf: "bf = path_join [bp, basename p]"
    and mp: "mp = path_join [bp, ''metadata.json'']"
    and fs3: "fs3 = AList.update mp v
                (AList.merge (mkdirs (dirname bf) (mkdirs bp fs0)) (copied p bf (mkdirs bp fs0)))"
    and fsX: "fsX = filter (\<lambda>(k, n). \<not> (under p k \<and> gone k)) fs3"
    and fs4: "fs4 = AList.merge (mkdirs (dirname p) fsX) (copied bf p fsX)"
    and q: "under p q"
  shows "map_of fs4 q = map_of fs0 q"
proof -
  let ?bq = "bf @ drop (length p) q"
  from apart have fresh: "list_all (\<lambda>(k, n). \<not> under bf k) fs0"
    and pb: "\<not> under p bf" and bp': "\<not> under bf p"
    and bm: "\<not> under bf mp" and pm: "\<not> under p mp"
    and made: "\<forall>d \<in> set (dirChain bp) \<union> set (dirChain (dirname bf)) \<union> set (dirChain (dirname p)).
                 \<not> under bf d \<and> \<not> under p d"
    by (auto simp: backupApart_def Let_def bf mp list_all_iff)
  have ubq: "under bf ?bq" using q by (rule under_rebase)
  have nbq: "\<not> under p ?bq" using under_comparable [OF _ ubq, of p] pb bp' by auto
  have nq: "\<not> under bf q" using under_comparable [OF _ q, of bf] pb bp' by auto
  have q1: "q \<notin> set (dirChain bp)" and q2: "q \<notin> set (dirChain (dirname bf))"
    and q3: "q \<notin> set (dirChain (dirname p))"
    using made q by auto
  have b1: "?bq \<notin> set (dirChain bp)" and b2: "?bq \<notin> set (dirChain (dirname bf))"
    using made ubq by auto
  have ne1: "?bq \<noteq> mp" using ubq bm by auto
  have ne2: "q \<noteq> mp" using q pm by auto
  have pq: "p @ drop (length p) q = q" using under_decompose [OF q] by simp
  have fr: "map_of fs0 ?bq = None" using fresh ubq by (rule fresh_None)
  let ?fs1 = "mkdirs bp fs0"
  let ?fs2 = "AList.merge (mkdirs (dirname bf) ?fs1) (copied p bf ?fs1)"
  have f1q: "map_of ?fs1 q = map_of fs0 q"
    by (simp add: map_of_mkdirs q1 split: option.splits)
  have f1b: "map_of ?fs1 ?bq = None"
    by (simp add: map_of_mkdirs fr b1)
  have cb: "map_of (copied p bf ?fs1) ?bq = map_of fs0 q"
    using ubq by (simp add: map_of_copied pq f1q)
  have mb: "map_of (mkdirs (dirname bf) ?fs1) ?bq = None"
    by (subst map_of_mkdirs) (simp add: f1b b2)
  have f2b: "map_of ?fs2 ?bq = map_of fs0 q"
    by (simp add: merge_conv' map_add_def cb mb split: option.splits)
  have cq: "map_of (copied p bf ?fs1) q = None"
    using nq by (simp add: map_of_copied)
  have mq: "map_of (mkdirs (dirname bf) ?fs1) q = map_of fs0 q"
    by (subst map_of_mkdirs) (simp add: f1q q2 split: option.splits)
  have f2q: "map_of ?fs2 q = map_of fs0 q"
    by (simp add: merge_conv' map_add_def cq mq)
  have f3b: "map_of fs3 ?bq = map_of fs0 q"
    unfolding fs3 using ne1 by (simp add: update_conv' f2b)
  have f3q: "map_of fs3 q = map_of fs0 q"
    unfolding fs3 using ne2 by (simp add: update_conv' f2q)
  have fX: "map_of fsX k = (if \<not> (under p k \<and> gone k) then map_of fs3 k else None)" for k
    unfolding fsX by (rule map_of_filter_key [of "\<lambda>k. \<not> (under p k \<and> gone k)"])
  have fXb: "map_of fsX ?bq = map_of fs0 q"
    using nbq by (simp add: fX f3b)
  have fXq: "map_of fsX q = map_of fs0 q \<or> map_of fsX q = None"
    by (simp add: fX f3q)
  have c4: "map_of (copied bf p fsX) q = map_of fs0 q"
    using q by (simp add: map_of_copied fXb)
  have m4: "map_of fs0 q = None \<Longrightarrow> map_of (mkdirs (dirname p) fsX) q = None"
    using fXq by (auto simp: map_of_mkdirs q3)
  show ?thesis
    unfolding fs4 using m4 by (cases "map_of fs0 q") (simp_all add: merge_conv' map_add_def c4)
qed

lemma createBackup_Inr:
  assumes "createBackup basePath w resourceName resourceType deps = (Inr backupPath, w1)"
    and "getResourcePath basePath w resourceType resourceName = Some p"
  shows "w1 = w\<lparr>files :=
            AList.update (path_join [backupPath, ''metadata.json''])
              (File (Document \<lparr>bm_timestamp = fileTimestamp (isoNow w), bm_resourceName = resourceName,
                               bm_resourceType = resourceType, bm_dependencies = deps,
                               bm_originalPath = p\<rparr>))
              (AList.merge
                 (mkdirs (dirname (path_join [backupPath, basename p])) (mkdirs backupPath (files w)))
                 (copied p (path_join [backupPath, basename p]) (mkdirs backupPath (files w))))\<rparr>"
  using assms
  by (auto simp: createBackup_def Let_def ensureDir_def fs_copy_def writeJSON_def
           split: sum.splits if_splits)

lemma getResourcePath_files:
  assumes "getResourcePath basePath w resourceType resourceName = Some p"
  shows "getResourcePath basePath (w\<lparr>files := fs\<rparr>) resourceType resourceName =
           (if pathExists fs p then Some p else None)"
  using assms by (auto simp: getResourcePath_def Let_def split: if_splits)

lemma removeAndUpdate_final:
  assumes "getResourcePath basePath w resourceType resourceName = Some p"
  shows "\<exists>gone. final (removeAndUpdate basePath (w\<lparr>files := fs\<rparr>) resourceName resourceType update deps)
           = w\<lparr>files := filter (\<lambda>(k, n). \<not> (under p k \<and> gone k)) fs\<rparr>"
proof -
  let ?w2 = "w\<lparr>files := filter (\<lambda>(k, n). \<not> under p k) fs\<rparr>"
  let ?body = "removeAndUpdate basePath (w\<lparr>files := fs\<rparr>) resourceName resourceType update deps"
  obtain r w' where ud: "updateDependencies basePath ?w2 resourceName deps = (r, w')"
    by (cases "updateDependencies basePath ?w2 resourceName deps")
  have w': "w' = ?w2"
    using updateDependencies_world [of basePath ?w2 resourceName deps] ud by simp
  show ?thesis
  proof (cases "pathExists fs p")
    case False
    then have "final ?body = w\<lparr>files := filter (\<lambda>(k, n). \<not> (under p k \<and> False)) fs\<rparr>"
      unfolding removeAndUpdate_def getResourcePath_files [OF assms] by simp
    then show ?thesis by (rule exI [of _ "\<lambda>k. False"])
  next
    case True
    show ?thesis
    proof (cases "ioFails w (Remove p)")
      case fails: True
      then have "final ?body = w\<lparr>files := filter (\<lambda>(k, n). \<not> (under p k \<and> removedOnReject w k)) fs\<rparr>"
        unfolding removeAndUpdate_def getResourcePath_files [OF assms] using True
        by (simp add: fs_remove_def)
      then show ?thesis by (rule exI [of _ "removedOnReject w"])
    next
      case works: False
      then have "final ?body = w\<lparr>files := filter (\<lambda>(k, n). \<not> (under p k \<and> True)) fs\<rparr>"
        unfolding removeAndUpdate_def getResourcePath_files [OF assms] using True ud w'
        by (cases update) (simp_all add: fs_remove_def)
      then show ?thesis by (rule exI [of _ "\<lambda>k. True"])
    qed
  qed
qed

lemma restoreBackup_Inr:
  assumes "restoreBackup backupPath wX = Inr w3"
  shows "\<exists>md. map_of (files wX) (path_join [backupPath, ''metadata.json'']) = Some (File (Document md))
           \<and> w3 = wX\<lparr>files :=
                 AList.merge (mkdirs (dirname (bm_originalPath md)) (files wX))
                   (copied (path_join [backupPath, basename (bm_originalPath md)])
                      (bm_originalPath md) (files wX))\<rparr>"
  using assms
  by (auto simp: restoreBackup_def Let_def readJSON_def fs_copy_def
           split: if_splits sum.splits option.splits node.splits content.splits)

lemma checkDependencies_Inr:
  "checkDependencies basePath w resourceName resourceType = Inr r \<Longrightarrow>
   \<exists>p. getResourcePath basePath w resourceType resourceName = Some p"
  by (auto simp: checkDependencies_def split: option.splits)

text \<open>
  C4, amended. When a backup was created and the Mutate or Post-update step raises,
  \<open>safeDelete\<close> enters Rollback and calls \<open>restoreBackup\<close> on that backup, in the world the
  failed step left (a rejected removal may have removed a part of the resource). If the
  restore fails, its error is the one raised. If it completes, the original error is
  raised, in the world the restore left; and when the place of the backup lies apart from
  the resource, every file of the resource is then what it was before the call.
\<close>

theorem rollback_on_failure:
  assumes chk: "checkDependencies basePath w resourceName resourceType = Inr r"
    and nc: "\<not> isCore r"
    and gate: "\<not> (hasActive r \<and> \<not> optionSet (force options))"
    and ns: "\<not> optionSet (skipBackup options)"
    and bk: "createBackup basePath w resourceName resourceType (dependencies r) = (Inr backupPath, w1)"
    and body: "result (removeAndUpdate basePath w1 resourceName resourceType
                         (optionSet (updateDeps options)) (dependencies r)) = Inl err"
  shows "Rollback \<in> set (steps (safeDelete basePath w resourceName resourceType options))
       \<and> (\<forall>e2. restoreBackup backupPath
                  (final (removeAndUpdate basePath w1 resourceName resourceType
                            (optionSet (updateDeps options)) (dependencies r))) = Inl e2
             \<longrightarrow> result (safeDelete basePath w resourceName resourceType options) = Inl e2)
       \<and> (\<forall>w3. restoreBackup backupPath
                  (final (removeAndUpdate basePath w1 resourceName resourceType
                            (optionSet (updateDeps options)) (dependencies r))) = Inr w3
             \<longrightarrow> result (safeDelete basePath w resourceName resourceType options) = Inl err
               \<and> final (safeDelete basePath w resourceName resourceType options) = w3
               \<and> (\<forall>p q. getResourcePath basePath w resourceType resourceName = Some p
                        \<and> backupApart (files w) p backupPath \<and> under p q
                     \<longrightarrow> map_of (files w3) q = map_of (files w) q))"
proof -
  let ?body = "removeAndUpdate basePath w1 resourceName resourceType
                 (optionSet (updateDeps options)) (dependencies r)"
  let ?out = "safeDelete basePath w resourceName resourceType options"
  have eq: "?out =
     (case restoreBackup backupPath (final ?body) of
        Inl e2 \<Rightarrow> \<lparr>result = Inl e2, final = final ?body,
                   steps = [Check, Gate, Backup] @ steps ?body @ [Rollback]\<rparr>
      | Inr w3 \<Rightarrow> \<lparr>result = Inl err, final = w3,
                   steps = [Check, Gate, Backup] @ steps ?body @ [Rollback]\<rparr>)"
    using safeDelete_backed_up [OF chk nc gate ns bk] body by (simp add: Let_def)
  have rb: "Rollback \<in> set (steps ?out)"
    unfolding eq by (simp split: sum.splits)
  have fail: "\<And>e2. restoreBackup backupPath (final ?body) = Inl e2 \<Longrightarrow> result ?out = Inl e2"
    unfolding eq by simp
  have ok: "\<And>w3. restoreBackup backupPath (final ?body) = Inr w3 \<Longrightarrow>
              result ?out = Inl err \<and> final ?out = w3"
    unfolding eq by simp
  have restored: "map_of (files w3) q = map_of (files w) q"
    if rs: "restoreBackup backupPath (final ?body) = Inr w3"
      and gp: "getResourcePath basePath w resourceType resourceName = Some p"
      and apart: "backupApart (files w) p backupPath" and q: "under p q"
    for w3 p q
  proof -
    let ?bf = "path_join [backupPath, basename p]"
    let ?mp = "path_join [backupPath, ''metadata.json'']"
    let ?v = "File (Document \<lparr>bm_timestamp = fileTimestamp (isoNow w), bm_resourceName = resourceName,
                               bm_resourceType = resourceType, bm_dependencies = dependencies r,
                               bm_originalPath = p\<rparr>)"
    let ?fs3 = "AList.update ?mp ?v
                 (AList.merge (mkdirs (dirname ?bf) (mkdirs backupPath (files w)))
                    (copied p ?bf (mkdirs backupPath (files w))))"
    have w1: "w1 = w\<lparr>files := ?fs3\<rparr>" using bk gp by (rule createBackup_Inr)
    have "\<exists>gone. final ?body = w\<lparr>files := filter (\<lambda>(k, n). \<not> (under p k \<and> gone k)) ?fs3\<rparr>"
      unfolding w1 using gp by (rule removeAndUpdate_final)
    then obtain gone where
      fsX: "files (final ?body) = filter (\<lambda>(k, n). \<not> (under p k \<and> gone k)) ?fs3"
      by auto
    from restoreBackup_Inr [OF rs] obtain md where
      md: "map_of (files (final ?body)) ?mp = Some (File (Document md))"
      and w3: "w3 = (final ?body)\<lparr>files :=
                 AList.merge (mkdirs (dirname (bm_originalPath md)) (files (final ?body)))
                   (copied (path_join [backupPath, basename (bm_originalPath md)])
                      (bm_originalPath md) (files (final ?body)))\<rparr>"
      by auto
    have "map_of ?fs3 ?mp = Some (File (Document md))"
      using md unfolding fsX map_of_filter_key [of "\<lambda>k. \<not> (under p k \<and> gone k)"]
      by (simp split: if_splits)
    then have op: "bm_originalPath md = p" by (auto simp: update_conv')
    have fs4: "files w3 = AList.merge (mkdirs (dirname p) (files (final ?body)))
                            (copied ?bf p (files (final ?body)))"
      unfolding w3 op by simp
    show ?thesis
      using apart refl refl refl fsX fs4 q by (rule restored_files)
  qed
  show ?thesis using rb fail ok restored by blast
qed

text \<open>The run in which the removal of the resource is rejected.\<close>

lemma removeFail_run:
  "checkDependencies ''/p'' removeFailWorld memoName ''templates'' = Inr memoCheck"
  "\<not> isCore memoCheck"
  "\<not> (hasActive memoCheck \<and> \<not> optionSet (force plainOptions))"
  "\<not> optionSet (skipBackup plainOptions)"
  "getResourcePath ''/p'' removeFailWorld ''templates'' memoName = Some memoPath"
  "fst (createBackup ''/p'' removeFailWorld memoName ''templates'' (dependencies memoCheck)) = Inr memoBackup"
  "result (removeAndUpdate ''/p''
             (snd (createBackup ''/p'' removeFailWorld memoName ''templates'' (dependencies memoCheck)))
             memoName ''templates'' (optionSet (updateDeps plainOptions)) (dependencies memoCheck))
     = Inl (IOFailure (Remove memoPath))"
  "\<not> isl (restoreBackup memoBackup
             (final (removeAndUpdate ''/p''
                (snd (createBackup ''/p'' removeFailWorld memoName ''templates'' (dependencies memoCheck)))
                memoName ''templates'' (optionSet (updateDeps plainOptions)) (dependencies memoCheck))))"
  "backupApart (files removeFailWorld) memoPath memoBackup"
  "under memoPath memoPath"
  "map_of (files removeFailWorld) memoPath = Some (File (Text ''custom memo''))"
  by code_simp+

text \<open>The run in which the removal and the copy of the restore are both rejected.\<close>

lemma doubleFail_run:
  "checkDependencies ''/p'' doubleFailWorld memoName ''templates'' = Inr memoCheck"
  "fst (createBackup ''/p'' doubleFailWorld memoName ''templates'' (dependencies memoCheck)) = Inr memoBackup"
  "result (removeAndUpdate ''/p''
             (snd (createBackup ''/p'' doubleFailWorld memoName ''templates'' (dependencies memoCheck)))
             memoName ''templates'' (optionSet (updateDeps plainOptions)) (dependencies memoCheck))
     = Inl (IOFailure (Remove memoPath))"
  "isl (restoreBackup memoBackup
          (final (removeAndUpdate ''/p''
             (snd (createBackup ''/p'' doubleFailWorld memoName ''templates'' (dependencies memoCheck)))
             memoName ''templates'' (optionSet (updateDeps plainOptions)) (dependencies memoCheck))))"
  "projl (restoreBackup memoBackup
          (final (removeAndUpdate ''/p''
             (snd (createBackup ''/p'' doubleFailWorld memoName ''templates'' (dependencies memoCheck)))
             memoName ''templates'' (optionSet (updateDeps plainOptions)) (dependencies memoCheck))))
     = IOFailure (Copy (memoBackup @ ''/memo.md'') memoPath)"
  by code_simp+

text \<open>
  The run in which the removal of the directory \<^verbatim>\<open>pack\<close> is rejected after its file \<^verbatim>\<open>a.md\<close>
  was removed.
\<close>

lemma packFail_run:
  "checkDependencies ''/p'' packWorld packName ''templates'' = Inr memoCheck"
  "getResourcePath ''/p'' packWorld ''templates'' packName = Some packPath"
  "fst (createBackup ''/p'' packWorld packName ''templates'' (dependencies memoCheck)) = Inr packBackup"
  "result (removeAndUpdate ''/p''
             (snd (createBackup ''/p'' packWorld packName ''templates'' (dependencies memoCheck)))
             packName ''templates'' (optionSet (updateDeps plainOptions)) (dependencies memoCheck))
     = Inl (IOFailure (Remove packPath))"
  "\<not> isl (restoreBackup packBackup
             (final (removeAndUpdate ''/p''
                (snd (createBackup ''/p'' packWorld packName ''templates'' (dependencies memoCheck)))
                packName ''templates'' (optionSet (updateDeps plainOptions)) (dependencies memoCheck))))"
  "backupApart (files packWorld) packPath packBackup"
  "under packPath (packPath @ ''/a.md'')"
  "map_of (files packWorld) (packPath @ ''/a.md'') = Some (File (Text ''pack a''))"
  "map_of (files (final (removeAndUpdate ''/p''
                (snd (createBackup ''/p'' packWorld packName ''templates'' (dependencies memoCheck)))
                packName ''templates'' (optionSet (updateDeps plainOptions)) (dependencies memoCheck))))
     (packPath @ ''/a.md'') = None"
  by code_simp+

theorem rollback_on_failure_witness:
  "checkDependencies ''/p'' packWorld packName ''templates'' = Inr memoCheck
   \<and> fst (createBackup ''/p'' packWorld packName ''templates'' (dependencies memoCheck)) = Inr packBackup
   \<and> backupApart (files packWorld) packPath packBackup
   \<and> map_of (files packWorld) (packPath @ ''/a.md'') = Some (File (Text ''pack a''))
   \<and> map_of (files (final (removeAndUpdate ''/p''
                (snd (createBackup ''/p'' packWorld packName ''templates'' (dependencies memoCheck)))
                packName ''templates'' (optionSet (updateDeps plainOptions)) (dependencies memoCheck))))
        (packPath @ ''/a.md'') = None
   \<and> Rollback \<in> set (steps (safeDelete ''/p'' packWorld packName ''templates'' plainOptions))
   \<and> result (safeDelete ''/p'' packWorld packName ''templates'' plainOptions)
       = Inl (IOFailure (Remove packPath))
   \<and> map_of (files (final (safeDelete ''/p'' packWorld packName ''templates'' plainOptions)))
        (packPath @ ''/a.md'')
       = Some (File (Text ''pack a''))
   \<and> checkDependencies ''/p'' doubleFailWorld memoName ''templates'' = Inr memoCheck
   \<and> fst (createBackup ''/p'' doubleFailWorld memoName ''templates'' (dependencies memoCheck)) = Inr memoBackup
   \<and> result (safeDelete ''/p'' doubleFailWorld memoName ''templates'' plainOptions)
       = Inl (IOFailure (Copy (memoBackup @ ''/memo.md'') memoPath))"
proof -
  let ?w1 = "snd (createBackup ''/p'' packWorld packName ''templates'' (dependencies memoCheck))"
  let ?body = "removeAndUpdate ''/p'' ?w1 packName ''templates''
                 (optionSet (updateDeps plainOptions)) (dependencies memoCheck)"
  have bk: "createBackup ''/p'' packWorld packName ''templates'' (dependencies memoCheck)
              = (Inr packBackup, ?w1)"
    using packFail_run(3) by (simp add: prod_eq_iff)
  obtain w3 where rs: "restoreBackup packBackup (final ?body) = Inr w3"
    using packFail_run(5) by (cases "restoreBackup packBackup (final ?body)") auto
  note inst = rollback_on_failure [OF packFail_run(1) removeFail_run(2-4) bk packFail_run(4)]
  from inst rs have a: "result (safeDelete ''/p'' packWorld packName ''templates'' plainOptions)
       = Inl (IOFailure (Remove packPath))"
    and b: "final (safeDelete ''/p'' packWorld packName ''templates'' plainOptions) = w3"
    and c: "map_of (files w3) (packPath @ ''/a.md'') = map_of (files packWorld) (packPath @ ''/a.md'')"
    using packFail_run(2,6,7) by blast+
  from inst have d: "Rollback \<in> set (steps (safeDelete ''/p'' packWorld packName ''templates'' plainOptions))"
    by blast
  let ?v1 = "snd (createBackup ''/p'' doubleFailWorld memoName ''templates'' (dependencies memoCheck))"
  let ?vbody = "removeAndUpdate ''/p'' ?v1 memoName ''templates''
                 (optionSet (updateDeps plainOptions)) (dependencies memoCheck)"
  have bk2: "createBackup ''/p'' doubleFailWorld memoName ''templates'' (dependencies memoCheck)
              = (Inr memoBackup, ?v1)"
    using doubleFail_run(2) by (simp add: prod_eq_iff)
  have rs2: "restoreBackup memoBackup (final ?vbody) = Inl (IOFailure (Copy (memoBackup @ ''/memo.md'') memoPath))"
    using doubleFail_run(4,5) by (cases "restoreBackup memoBackup (final ?vbody)") auto
  from rollback_on_failure [OF doubleFail_run(1) removeFail_run(2-4) bk2 doubleFail_run(3)] rs2
  have e: "result (safeDelete ''/p'' doubleFailWorld memoName ''templates'' plainOptions)
       = Inl (IOFailure (Copy (memoBackup @ ''/memo.md'') memoPath))"
    by blast
  show ?thesis
    using a b c d e packFail_run(1,3,6,8,9) doubleFail_run(1,2) by simp
qed

text \<open>
  C4, as stated, fails in two ways. When the restore is rejected as well, the backup was
  created, the removal raised its error, the rollback ran, and the error \<open>safeDelete\<close>
  raises is the one of the restore's copy, not the one of the removal. And when the
  resource's base name is \<^verbatim>\<open>metadata.json\<close>, the metadata document is written over the copy
  in the backup: the removal raised its error, the restore completed and the original
  error is raised, but the resource now holds the metadata document instead of its text.
\<close>

theorem rollback_on_failure_counterexample:
  "checkDependencies ''/p'' doubleFailWorld memoName ''templates'' = Inr memoCheck
   \<and> fst (createBackup ''/p'' doubleFailWorld memoName ''templates'' (dependencies memoCheck)) = Inr memoBackup
   \<and> result (removeAndUpdate ''/p''
               (snd (createBackup ''/p'' doubleFailWorld memoName ''templates'' (dependencies memoCheck)))
               memoName ''templates'' (optionSet (updateDeps plainOptions)) (dependencies memoCheck))
       = Inl (IOFailure (Remove memoPath))
   \<and> steps (safeDelete ''/p'' doubleFailWorld memoName ''templates'' plainOptions)
       = [Check, Gate, Backup, Mutate, Rollback]
   \<and> result (safeDelete ''/p'' doubleFailWorld memoName ''templates'' plainOptions)
       = Inl (IOFailure (Copy (memoBackup @ ''/memo.md'') memoPath))
   \<and> IOFailure (Copy (memoBackup @ ''/memo.md'') memoPath) \<noteq> IOFailure (Remove memoPath)
   \<and> checkDependencies ''/p'' clashWorld clashName ''templates'' = Inr memoCheck
   \<and> getResourcePath ''/p'' clashWorld ''templates'' clashName = Some clashPath
   \<and> map_of (files clashWorld) clashPath = Some (File (Text ''custom settings''))
   \<and> fst (createBackup ''/p'' clashWorld clashName ''templates'' (dependencies memoCheck)) = Inr clashBackup
   \<and> \<not> backupApart (files clashWorld) clashPath clashBackup
   \<and> result (removeAndUpdate ''/p''
               (snd (createBackup ''/p'' clashWorld clashName ''templates'' (dependencies memoCheck)))
               clashName ''templates'' (optionSet (updateDeps plainOptions)) (dependencies memoCheck))
       = Inl (IOFailure (Remove clashPath))
   \<and> \<not> isl (restoreBackup clashBackup
               (final (removeAndUpdate ''/p''
                  (snd (createBackup ''/p'' clashWorld clashName ''templates'' (dependencies memoCheck)))
                  clashName ''templates'' (optionSet (updateDeps plainOptions)) (dependencies memoCheck))))
   \<and> steps (safeDelete ''/p'' clashWorld clashName ''templates'' plainOptions)
       = [Check, Gate, Backup, Mutate, Rollback]
   \<and> result (safeDelete ''/p'' clashWorld clashName ''templates'' plainOptions)
       = Inl (IOFailure (Remove clashPath))
   \<and> map_of (files (final (safeDelete ''/p'' clashWorld clashName ''templates'' plainOptions))) clashPath
       = Some (File (Document \<lparr>bm_timestamp = ''2026-01-01T00-00-00-000Z'',
                                 bm_resourceName = clashName, bm_resourceType = ''templates'',
                                 bm_dependencies = [], bm_originalPath = clashPath\<rparr>))"
  by code_simp

lemma backup_keeps_resource:
  assumes apart: "backupApart fs0 p bp"
    and bf: "bf = path_join [bp, basename p]"
    and q: "under p q"
  shows "map_of (mkdirs bp fs0) q = map_of fs0 q"
    and "map_of (AList.merge (mkdirs (dirname bf) (mkdirs bp fs0)) (copied p bf (mkdirs bp fs0))) q
           = map_of fs0 q"
proof -
  from apart have pb: "\<not> under p bf" and bp': "\<not> under bf p"
    and made: "\<forall>d \<in> set (dirChain bp) \<union> set (dirChain (dirname bf)). \<not> under p d"
    by (auto simp: backupApart_def Let_def bf list_all_iff)
  have nq: "\<not> under bf q" using under_comparable [OF _ q, of bf] pb bp' by auto
  have q1: "q \<notin> set (dirChain bp)" and q2: "q \<notin> set (dirChain (dirname bf))"
    using made q by auto
  show f1q: "map_of (mkdirs bp fs0) q = map_of fs0 q"
    by (simp add: map_of_mkdirs q1 split: option.splits)
  have cq: "map_of (copied p bf (mkdirs bp fs0)) q = None"
    using nq by (simp add: map_of_copied)
  have mq: "map_of (mkdirs (dirname bf) (mkdirs bp fs0)) q = map_of fs0 q"
    by (subst map_of_mkdirs) (simp add: f1q q2 split: option.splits)
  show "map_of (AList.merge (mkdirs (dirname bf) (mkdirs bp fs0)) (copied p bf (mkdirs bp fs0))) q
           = map_of fs0 q"
    by (simp add: merge_conv' map_add_def cq mq)
qed

lemma createBackup_Inl:
  assumes "createBackup basePath w resourceName resourceType deps = (Inl e, w1)"
    and "getResourcePath basePath w resourceType resourceName = Some p"
  shows "w1 = w
       \<or> w1 = w\<lparr>files := mkdirs (backupPathOf w resourceName) (files w)\<rparr>
       \<or> w1 = w\<lparr>files :=
              AList.merge
                (mkdirs (dirname (path_join [backupPathOf w resourceName, basename p]))
                   (mkdirs (backupPathOf w resourceName) (files w)))
                (copied p (path_join [backupPathOf w resourceName, basename p])
                   (mkdirs (backupPathOf w resourceName) (files w)))\<rparr>"
  using assms
  by (auto simp: createBackup_def backupPathOf_def Let_def ensureDir_def fs_copy_def writeJSON_def
           split: sum.splits if_splits)

lemma failed_backup_keeps_resource:
  assumes "createBackup basePath w resourceName resourceType deps = (Inl e, w1)"
    and gp: "getResourcePath basePath w resourceType resourceName = Some p"
    and apart: "backupApart (files w) p (backupPathOf w resourceName)"
    and q: "under p q"
  shows "map_of (files w1) q = map_of (files w) q"
  using createBackup_Inl [OF assms(1) gp] backup_keeps_resource [OF apart refl q]
  by auto

lemma createBackup_backupPath:
  "createBackup basePath w resourceName resourceType deps = (Inr backupPath, w1) \<Longrightarrow>
   backupPath = backupPathOf w resourceName"
  by (auto simp: createBackup_def backupPathOf_def Let_def split: option.splits sum.splits)

text \<open>
  Backup, deletion and restore of a resource that \<open>safeDelete\<close> accepts: when the run
  succeeds and the backup lies apart from the resource, \<open>restoreBackup\<close> on the directory
  of the backup gives every file of the resource back.
\<close>

lemma backup_restore_roundtrip:
  assumes chk: "checkDependencies basePath w resourceName resourceType = Inr r"
    and nc: "\<not> isCore r"
    and gate: "\<not> (hasActive r \<and> \<not> optionSet (force options))"
    and ns: "\<not> optionSet (skipBackup options)"
    and gp: "getResourcePath basePath w resourceType resourceName = Some p"
    and ok: "result (safeDelete basePath w resourceName resourceType options) = Inr ()"
    and apart: "backupApart (files w) p (backupPathOf w resourceName)"
    and rs: "restoreBackup (backupPathOf w resourceName)
               (final (safeDelete basePath w resourceName resourceType options)) = Inr w3"
    and q: "under p q"
  shows "map_of (files w3) q = map_of (files w) q"
proof -
  let ?out = "safeDelete basePath w resourceName resourceType options"
  let ?bp = "backupPathOf w resourceName"
  obtain b w1 where cb: "createBackup basePath w resourceName resourceType (dependencies r) = (b, w1)"
    by (cases "createBackup basePath w resourceName resourceType (dependencies r)")
  have "\<exists>backupPath. b = Inr backupPath"
  proof (cases b)
    case (Inl e)
    with safeDelete_backup_fails [OF chk nc gate ns] cb ok show ?thesis by auto
  next
    case (Inr backupPath)
    then show ?thesis by simp
  qed
  then obtain backupPath where b: "b = Inr backupPath" by auto
  have bk: "createBackup basePath w resourceName resourceType (dependencies r) = (Inr ?bp, w1)"
    using cb b createBackup_backupPath [of basePath w resourceName resourceType "dependencies r" backupPath w1]
    by simp
  let ?body = "removeAndUpdate basePath w1 resourceName resourceType
                 (optionSet (updateDeps options)) (dependencies r)"
  have fin: "final ?out = final ?body"
    using safeDelete_backed_up [OF chk nc gate ns bk] ok
    by (auto simp: Let_def split: sum.splits)
  let ?bf = "path_join [?bp, basename p]"
  let ?mp = "path_join [?bp, ''metadata.json'']"
  let ?v = "File (Document \<lparr>bm_timestamp = fileTimestamp (isoNow w), bm_resourceName = resourceName,
                             bm_resourceType = resourceType, bm_dependencies = dependencies r,
                             bm_originalPath = p\<rparr>)"
  let ?fs3 = "AList.update ?mp ?v
               (AList.merge (mkdirs (dirname ?bf) (mkdirs ?bp (files w)))
                  (copied p ?bf (mkdirs ?bp (files w))))"
  have w1: "w1 = w\<lparr>files := ?fs3\<rparr>" using bk gp by (rule createBackup_Inr)
  have "\<exists>gone. final ?body = w\<lparr>files := filter (\<lambda>(k, n). \<not> (under p k \<and> gone k)) ?fs3\<rparr>"
    unfolding w1 using gp by (rule removeAndUpdate_final)
  then obtain gone where
    fsX: "files (final ?out) = filter (\<lambda>(k, n). \<not> (under p k \<and> gone k)) ?fs3"
    unfolding fin by auto
  from restoreBackup_Inr [OF rs] obtain md where
    md: "map_of (files (final ?out)) ?mp = Some (File (Document md))"
    and w3: "w3 = (final ?out)\<lparr>files :=
               AList.merge (mkdirs (dirname (bm_originalPath md)) (files (final ?out)))
                 (copied (path_join [?bp, basename (bm_originalPath md)])
                    (bm_originalPath md) (files (final ?out)))\<rparr>"
    by auto
  have "map_of ?fs3 ?mp = Some (File (Document md))"
    using md unfolding fsX map_of_filter_key [of "\<lambda>k. \<not> (under p k \<and> gone k)"]
    by (simp split: if_splits)
  then have op: "bm_originalPath md = p" by (auto simp: update_conv')
  have fs4: "files w3 = AList.merge (mkdirs (dirname p) (files (final ?out)))
                          (copied ?bf p (files (final ?out)))"
    unfolding w3 op by simp
  show ?thesis
    using apart refl refl refl fsX fs4 q by (rule restored_files)
qed

section \<open>The order of the steps\<close>

text \<open>
  C5. The steps of every run of \<open>safeDelete\<close> are entered in the order Check, Gate, Backup,
  Mutate, Post-update, Rollback, each at most once. A run that enters neither Backup nor
  Mutate leaves the world as it was. When \<open>createBackup\<close> is called and fails, the run ends
  there with that error, in the world \<open>createBackup\<close> left, without entering Mutate; and when
  the place of the backup lies apart from the resource, every file of the resource is
  still what it was. Rollback is entered only after a backup was created and the Mutate
  or Post-update step raised.
\<close>

theorem safeDelete_step_order:
  "subseq (steps (safeDelete basePath w resourceName resourceType options))
     [Check, Gate, Backup, Mutate, PostUpdate, Rollback]
   \<and> (Backup \<notin> set (steps (safeDelete basePath w resourceName resourceType options))
      \<and> Mutate \<notin> set (steps (safeDelete basePath w resourceName resourceType options))
      \<longrightarrow> final (safeDelete basePath w resourceName resourceType options) = w)
   \<and> (\<forall>r e w1. checkDependencies basePath w resourceName resourceType = Inr r
         \<and> \<not> isCore r \<and> \<not> (hasActive r \<and> \<not> optionSet (force options))
         \<and> \<not> optionSet (skipBackup options)
         \<and> createBackup basePath w resourceName resourceType (dependencies r) = (Inl e, w1)
       \<longrightarrow> safeDelete basePath w resourceName resourceType options
             = \<lparr>result = Inl e, final = w1, steps = [Check, Gate, Backup]\<rparr>
         \<and> (\<forall>p q. getResourcePath basePath w resourceType resourceName = Some p
                  \<and> backupApart (files w) p (backupPathOf w resourceName) \<and> under p q
               \<longrightarrow> map_of (files w1) q = map_of (files w) q))
   \<and> (Rollback \<in> set (steps (safeDelete basePath w resourceName resourceType options))
       \<longrightarrow> (\<exists>r backupPath w1 err.
              checkDependencies basePath w resourceName resourceType = Inr r
            \<and> createBackup basePath w resourceName resourceType (dependencies r) = (Inr backupPath, w1)
            \<and> result (removeAndUpdate basePath w1 resourceName resourceType
                         (optionSet (updateDeps options)) (dependencies r)) = Inl err
            \<and> Mutate \<in> set (steps (safeDelete basePath w resourceName resourceType options))))"
  (is "?order \<and> ?early \<and> ?backup \<and> ?rollback")
proof -
  let ?out = "safeDelete basePath w resourceName resourceType options"
  have all: "?order \<and> ?early \<and> ?rollback"
  proof (cases "checkDependencies basePath w resourceName resourceType")
    case (Inl e)
    then show ?thesis by (simp add: safeDelete_check_fails)
  next
    case (Inr r)
    show ?thesis
    proof (cases "isCore r")
      case True
      with Inr show ?thesis by (simp add: safeDelete_core)
    next
      case nc: False
      show ?thesis
      proof (cases "hasActive r \<and> \<not> optionSet (force options)")
        case True
        with Inr nc show ?thesis by (simp add: safeDelete_gate)
      next
        case ng: False
        show ?thesis
        proof (cases "optionSet (skipBackup options)")
          case True
          have "?out = (let body = removeAndUpdate basePath w resourceName resourceType
                   (optionSet (updateDeps options)) (dependencies r)
              in \<lparr>result = result body, final = final body, steps = [Check, Gate] @ steps body\<rparr>)"
            using Inr nc ng True by (rule safeDelete_unprotected)
          then show ?thesis
            using removeAndUpdate_steps [of basePath w resourceName resourceType
                "optionSet (updateDeps options)" "dependencies r"]
            by (auto simp: Let_def)
        next
          case ns: False
          obtain b w1 where cb: "createBackup basePath w resourceName resourceType (dependencies r) = (b, w1)"
            by (cases "createBackup basePath w resourceName resourceType (dependencies r)")
          show ?thesis
          proof (cases b)
            case (Inl e)
            with Inr nc ng ns cb show ?thesis by (simp add: safeDelete_backup_fails)
          next
            case (Inr backupPath)
            have eq: "?out = (let body = removeAndUpdate basePath w1 resourceName resourceType
                   (optionSet (updateDeps options)) (dependencies r)
              in case result body of
                Inr u \<Rightarrow> \<lparr>result = Inr (), final = final body, steps = [Check, Gate, Backup] @ steps body\<rparr>
              | Inl err \<Rightarrow>
                 (case restoreBackup backupPath (final body) of
                    Inl e2 \<Rightarrow> \<lparr>result = Inl e2, final = final body,
                               steps = [Check, Gate, Backup] @ steps body @ [Rollback]\<rparr>
                  | Inr w3 \<Rightarrow> \<lparr>result = Inl err, final = w3,
                               steps = [Check, Gate, Backup] @ steps body @ [Rollback]\<rparr>))"
              using \<open>checkDependencies basePath w resourceName resourceType = Inr r\<close> nc ng ns cb Inr
              by (intro safeDelete_backed_up) auto
            show ?thesis
              using removeAndUpdate_steps [of basePath w1 resourceName resourceType
                  "optionSet (updateDeps options)" "dependencies r"]
                \<open>checkDependencies basePath w resourceName resourceType = Inr r\<close> cb Inr
              unfolding eq by (auto simp: Let_def split: sum.splits)
          qed
        qed
      qed
    qed
  qed
  have "?backup"
    using failed_backup_keeps_resource [of basePath w resourceName resourceType]
    by (auto simp: safeDelete_backup_fails)
  with all show ?thesis by blast
qed

text \<open>The run in which the copy into the backup is rejected.\<close>

lemma backupFail_run:
  "checkDependencies ''/p'' backupFailWorld memoName ''templates'' = Inr memoCheck"
  "fst (createBackup ''/p'' backupFailWorld memoName ''templates'' (dependencies memoCheck))
     = Inl (IOFailure (Copy memoPath (memoBackup @ ''/memo.md'')))"
  "getResourcePath ''/p'' backupFailWorld ''templates'' memoName = Some memoPath"
  "backupApart (files backupFailWorld) memoPath (backupPathOf backupFailWorld memoName)"
  "map_of (files backupFailWorld) memoPath = Some (File (Text ''custom memo''))"
  by code_simp+

lemma removeFail_steps:
  "steps (safeDelete ''/p'' removeFailWorld memoName ''templates'' plainOptions)
     = [Check, Gate, Backup, Mutate, Rollback]"
  by code_simp

theorem safeDelete_step_order_witness:
  "fst (createBackup ''/p'' backupFailWorld memoName ''templates'' (dependencies memoCheck))
     = Inl (IOFailure (Copy memoPath (memoBackup @ ''/memo.md'')))
   \<and> backupApart (files backupFailWorld) memoPath (backupPathOf backupFailWorld memoName)
   \<and> result (safeDelete ''/p'' backupFailWorld memoName ''templates'' plainOptions)
       = Inl (IOFailure (Copy memoPath (memoBackup @ ''/memo.md'')))
   \<and> steps (safeDelete ''/p'' backupFailWorld memoName ''templates'' plainOptions) = [Check, Gate, Backup]
   \<and> map_of (files (final (safeDelete ''/p'' backupFailWorld memoName ''templates'' plainOptions))) memoPath
       = Some (File (Text ''custom memo''))
   \<and> Rollback \<in> set (steps (safeDelete ''/p'' removeFailWorld memoName ''templates'' plainOptions))
   \<and> (\<exists>r backupPath w1 err.
          checkDependencies ''/p'' removeFailWorld memoName ''templates'' = Inr r
        \<and> createBackup ''/p'' removeFailWorld memoName ''templates'' (dependencies r) = (Inr backupPath, w1)
        \<and> result (removeAndUpdate ''/p'' w1 memoName ''templates''
                     (optionSet (updateDeps plainOptions)) (dependencies r)) = Inl err
        \<and> Mutate \<in> set (steps (safeDelete ''/p'' removeFailWorld memoName ''templates'' plainOptions)))"
proof -
  let ?w1 = "snd (createBackup ''/p'' backupFailWorld memoName ''templates'' (dependencies memoCheck))"
  have bk: "createBackup ''/p'' backupFailWorld memoName ''templates'' (dependencies memoCheck)
              = (Inl (IOFailure (Copy memoPath (memoBackup @ ''/memo.md''))), ?w1)"
    using backupFail_run(2) by (simp add: prod_eq_iff)
  have pre: "checkDependencies ''/p'' backupFailWorld memoName ''templates'' = Inr memoCheck
         \<and> \<not> isCore memoCheck \<and> \<not> (hasActive memoCheck \<and> \<not> optionSet (force plainOptions))
         \<and> \<not> optionSet (skipBackup plainOptions)
         \<and> createBackup ''/p'' backupFailWorld memoName ''templates'' (dependencies memoCheck)
              = (Inl (IOFailure (Copy memoPath (memoBackup @ ''/memo.md''))), ?w1)"
    using backupFail_run(1) removeFail_run(2-4) bk by simp
  have res: "getResourcePath ''/p'' backupFailWorld ''templates'' memoName = Some memoPath
         \<and> backupApart (files backupFailWorld) memoPath (backupPathOf backupFailWorld memoName)
         \<and> under memoPath memoPath"
    using backupFail_run(3,4) removeFail_run(10) by simp
  note inst = safeDelete_step_order [of "''/p''" backupFailWorld memoName "''templates''" plainOptions]
  from inst pre
  have a: "safeDelete ''/p'' backupFailWorld memoName ''templates'' plainOptions
        = \<lparr>result = Inl (IOFailure (Copy memoPath (memoBackup @ ''/memo.md''))), final = ?w1,
           steps = [Check, Gate, Backup]\<rparr>"
    by blast
  from inst pre res
  have k: "map_of (files ?w1) memoPath = map_of (files backupFailWorld) memoPath"
    by blast
  have rb: "Rollback \<in> set (steps (safeDelete ''/p'' removeFailWorld memoName ''templates'' plainOptions))"
    by (simp add: removeFail_steps)
  from safeDelete_step_order [of "''/p''" removeFailWorld memoName "''templates''" plainOptions] rb
  have b: "\<exists>r backupPath w1 err.
          checkDependencies ''/p'' removeFailWorld memoName ''templates'' = Inr r
        \<and> createBackup ''/p'' removeFailWorld memoName ''templates'' (dependencies r) = (Inr backupPath, w1)
        \<and> result (removeAndUpdate ''/p'' w1 memoName ''templates''
                     (optionSet (updateDeps plainOptions)) (dependencies r)) = Inl err
        \<and> Mutate \<in> set (steps (safeDelete ''/p'' removeFailWorld memoName ''templates'' plainOptions))"
    by blast
  show ?thesis
    using a b rb k backupFail_run(2,4,5) by simp
qed

section \<open>Plainly named resources\<close>

text \<open>
  A resource with a plain name and type is never deleted: either the core layer does not
  have it and the check fails with the not-found error, or it has it and the resource is
  refused as a core resource. Either way the run ends in the Check step.
\<close>

lemma safeDelete_plain_refused:
  assumes "activeCoreSystem w = Some ac" and "plainSegment (''.'' @ ac)"
    and "plainSegment resourceType" and "plainSegment resourceName"
  shows "safeDelete basePath w resourceName resourceType options
           = \<lparr>result = Inl (Error (''Resource not found: '' @ resourceName)), final = w, steps = [Check]\<rparr>
       \<or> safeDelete basePath w resourceName resourceType options
           = \<lparr>result = Inl CoreResourceProtected, final = w, steps = [Check]\<rparr>"
proof (cases "getResourcePath basePath w resourceType resourceName")
  case None
  then have "checkDependencies basePath w resourceName resourceType
               = Inl (Error (''Resource not found: '' @ resourceName))"
    by (simp add: checkDependencies_def)
  then show ?thesis by (simp add: safeDelete_check_fails)
next
  case (Some p)
  from getResourcePath_Some [OF Some] assms(1)
  have p: "p = path_join [lcagentsPath basePath, ''core'', ''.'' @ ac, resourceType, resourceName]"
    by auto
  have "prefix (path_join [lcagentsPath basePath, ''core''] @ ''/'') p"
    unfolding p using assms(2-4) by (rule core_resource_path(2))
  then have "isCoreResource p" by (rule under_core_isCore)
  with checkDependencies_isCore [OF Some] obtain r where
    "checkDependencies basePath w resourceName resourceType = Inr r" and "isCore r" by auto
  then show ?thesis by (simp add: safeDelete_core)
qed

end
